theory Spec2Isabelle
  imports Main "HOL-Library.Word"
begin

section \<open>The TCP connection generator of packet-go (package tcp)\<close>

text \<open>
  The Go package builds the frames of a scripted TCP connection. A \<open>Peer\<close> is one
  endpoint; a \<open>Conn\<close> points to a client and a server \<open>Peer\<close>, holds the three
  option lists and the list of frames built so far. \<open>Connect\<close>, \<open>Send\<close> and
  \<open>Disconnect\<close> write the peers' fields in place and call \<open>createPacket\<close>, which
  hands the Ethernet, IPv4 and TCP headers to gopacket and stores the bytes.

  The embedding keeps the peers in a store from addresses to \<open>Peer\<close> values, since the
  code reaches them through pointers and the two pointers of a \<open>Conn\<close> (or of a call to
  \<open>Send\<close>) may be the same. Functions of other packages (\<open>net.ParseMAC\<close>,
  \<open>net.ParseIP\<close>, \<open>gopacket.SerializeLayers\<close>) are parameters, and the type of a TCP
  option (\<open>layers.TCPOption\<close>) is the type variable \<open>'opt\<close>.
\<close>

subsection \<open>Data\<close>

type_synonym byte = "8 word"

type_synonym addr = nat

text \<open>
  Ways in which the process stops: \<open>log.Fatal\<close> after \<open>net.ParseMAC\<close>, \<open>log.Fatal\<close>
  after \<open>gopacket.SerializeLayers\<close>, and the run-time panic of reading through a nil
  pointer.
\<close>

datatype error = InvalidAddress | SerializationFailure | NilDereference

text \<open>The anonymous struct \<open>Flags\<close> of a \<open>Peer\<close>.\<close>

record Flags =
  SYN :: bool
  ACK :: bool
  FIN :: bool

text \<open>
  \<open>Peer\<close>. The slices \<open>IP\<close> and \<open>Options\<close> may be nil, which is \<open>None\<close>:
  \<open>net.ParseIP\<close> returns nil for a string that is no address, and \<open>createPacket\<close>
  tests \<open>Options\<close> against nil. Nothing in the package tells a nil \<open>MAC\<close> from an
  empty one, so \<open>MAC\<close> is a plain list of bytes.
\<close>

record 'opt Peer =
  MAC :: "byte list"
  IP :: "byte list option"
  Port :: "16 word"
  Seq :: "32 word"
  Ack :: "32 word"
  Flags :: Flags
  Options :: "'opt list option"

text \<open>
  \<open>Conn\<close>. \<open>Client\<close> and \<open>Server\<close> are pointers; the fields of the anonymous struct
  \<open>Options\<close> are \<open>Options_SYN\<close>, \<open>Options_SYNACK\<close> and \<open>Options_ACK\<close>.
\<close>

record 'opt Conn =
  Client :: addr
  Server :: addr
  Options_SYN :: "'opt list option"
  Options_SYNACK :: "'opt list option"
  Options_ACK :: "'opt list option"
  Packets :: "byte list list"

text \<open>The program state: the connection and the store of peers. An address outside
  the domain of the store is a nil pointer.\<close>

record 'opt state =
  conn :: "'opt Conn"
  peers :: "addr \<rightharpoonup> 'opt Peer"

subsection \<open>What createPacket hands to gopacket\<close>

datatype EthernetType = EthernetTypeIPv4

datatype IPv4Flag = IPv4DontFragment

datatype IPProtocol = IPProtocolTCP

record SerializeOptions =
  FixLengths :: bool
  ComputeChecksums :: bool

record Ethernet =
  SrcMAC :: "byte list"
  DstMAC :: "byte list"
  EthernetType :: EthernetType

record IPv4 =
  Version :: "8 word"
  IPv4_Flags :: IPv4Flag
  Id :: "16 word"
  TTL :: "8 word"
  Protocol :: IPProtocol
  SrcIP :: "byte list option"
  DstIP :: "byte list option"

text \<open>The fields of \<open>layers.TCP\<close> that the code sets; \<open>TCP_Options\<close> is nil
  (\<open>None\<close>) in a fresh header.\<close>

record 'opt TCP =
  SrcPort :: "16 word"
  DstPort :: "16 word"
  TCP_SYN :: bool
  TCP_ACK :: bool
  TCP_FIN :: bool
  TCP_Seq :: "32 word"
  TCP_Ack :: "32 word"
  Window :: "16 word"
  TCP_Options :: "'opt list option"

datatype 'opt Layer =
  LEthernet Ethernet
  | LIPv4 IPv4
  | LTCP "'opt TCP"
  | LPayload "byte list"

text \<open>\<open>gopacket.SerializeLayers\<close> with a fresh buffer: the bytes, or \<open>None\<close> when it
  returns an error.\<close>

type_synonym 'opt serializer = "SerializeOptions \<Rightarrow> 'opt Layer list \<Rightarrow> byte list option"

subsection \<open>Sequencing of calls that may stop the process\<close>

definition bind :: "error + 'a \<Rightarrow> ('a \<Rightarrow> error + 'b) \<Rightarrow> error + 'b" where
  "bind m f = (case m of Inl e \<Rightarrow> Inl e | Inr x \<Rightarrow> f x)"

text \<open>Reading and writing a peer through a pointer.\<close>

definition deref :: "addr \<Rightarrow> 'opt state \<Rightarrow> error + 'opt Peer" where
  "deref p st = (case peers st p of None \<Rightarrow> Inl NilDereference | Some x \<Rightarrow> Inr x)"

definition modify :: "addr \<Rightarrow> ('opt Peer \<Rightarrow> 'opt Peer) \<Rightarrow> 'opt state \<Rightarrow> error + 'opt state" where
  "modify p f st =
     (case peers st p of
        None \<Rightarrow> Inl NilDereference
      | Some x \<Rightarrow> Inr (st\<lparr>peers := (peers st)(p \<mapsto> f x)\<rparr>))"

subsection \<open>NewPeer and NewConn\<close>

text \<open>
  \<open>NewPeer\<close> stops the process when \<open>net.ParseMAC\<close> returns an error. The result of
  \<open>net.ParseIP\<close> is stored as it is. The fields \<open>Ack\<close>, \<open>Flags\<close> and \<open>Options\<close>
  keep their zero values. The Go function returns a pointer to the new \<open>Peer\<close>; here
  it returns the \<open>Peer\<close>, and the properties speak about any store that holds it at
  some address.
\<close>

definition NewPeer ::
  "(string \<Rightarrow> byte list option) \<Rightarrow> (string \<Rightarrow> byte list option) \<Rightarrow>
   string \<Rightarrow> string \<Rightarrow> 16 word \<Rightarrow> 32 word \<Rightarrow> error + 'opt Peer" where
  "NewPeer ParseMAC ParseIP mac ip port isn =
     (case ParseMAC mac of
        None \<Rightarrow> Inl InvalidAddress
      | Some macAddr \<Rightarrow>
          let ipAddr = ParseIP ip in
          Inr \<lparr>MAC = macAddr, IP = ipAddr, Port = port, Seq = isn, Ack = 0,
               Flags = \<lparr>SYN = False, ACK = False, FIN = False\<rparr>, Options = None\<rparr>)"

definition NewConn :: "addr \<Rightarrow> addr \<Rightarrow> 'opt Conn" where
  "NewConn client server =
     \<lparr>Client = client, Server = server, Options_SYN = None, Options_SYNACK = None,
      Options_ACK = None, Packets = []\<rparr>"

subsection \<open>createPacket\<close>

text \<open>The loop that copies the old frames into the new slice, from index \<open>i\<close> on.\<close>

fun copy_packets :: "byte list list \<Rightarrow> nat \<Rightarrow> byte list list \<Rightarrow> byte list list" where
  "copy_packets [] i packets = packets"
| "copy_packets (p # ps) i packets = copy_packets ps (Suc i) (packets[i := p])"

text \<open>The last five lines of \<open>createPacket\<close>: a slice one longer than the old one,
  the old frames copied, the new frame at the last index.\<close>

definition append_packet :: "byte list list \<Rightarrow> byte list \<Rightarrow> byte list list" where
  "append_packet old buf =
     (let packets = replicate (length old + 1) [];
          packets = copy_packets old 0 packets
      in packets[length packets - 1 := buf])"

text \<open>The three headers built from the sender and the receiver. The call
  \<open>tcp.SetNetworkLayerForChecksum(&ip)\<close> names the IP header that the TCP checksum
  covers; here the serializer receives both headers in one list.\<close>

definition mk_eth :: "'opt Peer \<Rightarrow> 'opt Peer \<Rightarrow> Ethernet" where
  "mk_eth sender receiver =
     \<lparr>SrcMAC = MAC sender, DstMAC = MAC receiver, EthernetType = EthernetTypeIPv4\<rparr>"

definition mk_ip :: "'opt Peer \<Rightarrow> 'opt Peer \<Rightarrow> IPv4" where
  "mk_ip sender receiver =
     \<lparr>Version = 4, IPv4_Flags = IPv4DontFragment, Id = 1, TTL = 64,
      Protocol = IPProtocolTCP, SrcIP = IP sender, DstIP = IP receiver\<rparr>"

definition mk_tcp :: "'opt Peer \<Rightarrow> 'opt Peer \<Rightarrow> 'opt TCP" where
  "mk_tcp sender receiver =
     (let tcp = \<lparr>SrcPort = Port sender, DstPort = Port receiver,
                 TCP_SYN = SYN (Flags sender), TCP_ACK = ACK (Flags sender),
                 TCP_FIN = FIN (Flags sender), TCP_Seq = Seq sender, TCP_Ack = Ack sender,
                 Window = 64000, TCP_Options = None\<rparr>
      in case Options sender of
           None \<Rightarrow> tcp
         | Some os \<Rightarrow> tcp\<lparr>TCP_Options := Some os\<rparr>)"

text \<open>The layers passed to \<open>gopacket.SerializeLayers\<close>: with the payload as a fourth
  layer when the payload is not nil.\<close>

definition layers_of :: "'opt Peer \<Rightarrow> 'opt Peer \<Rightarrow> byte list option \<Rightarrow> 'opt Layer list" where
  "layers_of sender receiver payload =
     (case payload of
        Some pl \<Rightarrow>
          [LEthernet (mk_eth sender receiver), LIPv4 (mk_ip sender receiver),
           LTCP (mk_tcp sender receiver), LPayload pl]
      | None \<Rightarrow>
          [LEthernet (mk_eth sender receiver), LIPv4 (mk_ip sender receiver),
           LTCP (mk_tcp sender receiver)])"

text \<open>The local variable \<open>opts\<close> and the call of the serializer.\<close>

definition opts :: SerializeOptions where
  "opts = \<lparr>FixLengths = True, ComputeChecksums = True\<rparr>"

definition serialize ::
  "'opt serializer \<Rightarrow> 'opt Peer \<Rightarrow> 'opt Peer \<Rightarrow> byte list option \<Rightarrow> byte list option" where
  "serialize ser sender receiver payload = ser opts (layers_of sender receiver payload)"

text \<open>
  \<open>createPacket\<close>: both pointers are read, the headers are serialized, the process
  stops when the serializer returns an error, and otherwise the bytes are stored after
  the frames already there.
\<close>

definition createPacket ::
  "'opt serializer \<Rightarrow> addr \<Rightarrow> addr \<Rightarrow> byte list option \<Rightarrow> 'opt state \<Rightarrow> error + 'opt state" where
  "createPacket ser sender receiver payload st =
     bind (deref sender st) (\<lambda>s.
     bind (deref receiver st) (\<lambda>r.
       case serialize ser s r payload of
         None \<Rightarrow> Inl SerializationFailure
       | Some buf \<Rightarrow>
           Inr (st\<lparr>conn := (conn st)\<lparr>Packets := append_packet (Packets (conn st)) buf\<rparr>\<rparr>)))"

subsection \<open>Connect, Send and Disconnect\<close>

text \<open>The three assignments to \<open>Flags\<close> and the assignment to \<open>Ack\<close> that open each
  block of the three functions; \<open>set_ack_from p q\<close> is \<open>p.Ack = q.Seq\<close>. \<open>len\<close> is
  Go's \<open>len\<close> of a slice that may be nil.\<close>

definition set_flags :: "addr \<Rightarrow> bool \<Rightarrow> bool \<Rightarrow> bool \<Rightarrow> 'opt state \<Rightarrow> error + 'opt state" where
  "set_flags p syn ack fin =
     modify p (\<lambda>x. x\<lparr>Flags := (Flags x)\<lparr>SYN := syn, ACK := ack, FIN := fin\<rparr>\<rparr>)"

definition set_ack_from :: "addr \<Rightarrow> addr \<Rightarrow> 'opt state \<Rightarrow> error + 'opt state" where
  "set_ack_from p q st =
     (case peers st p of
        None \<Rightarrow> Inl NilDereference
      | Some _ \<Rightarrow> bind (deref q st) (\<lambda>y. modify p (\<lambda>x. x\<lparr>Ack := Seq y\<rparr>) st))"

definition len :: "byte list option \<Rightarrow> nat" where
  "len payload = (case payload of None \<Rightarrow> 0 | Some pl \<Rightarrow> length pl)"

definition Connect :: "'opt serializer \<Rightarrow> 'opt state \<Rightarrow> error + 'opt state" where
  "Connect ser st =
     bind (set_flags (Client (conn st)) True False False st) (\<lambda>st.
     bind (modify (Client (conn st)) (\<lambda>x. x\<lparr>Ack := 0\<rparr>) st) (\<lambda>st.
     bind (modify (Client (conn st)) (\<lambda>x. x\<lparr>Options := Options_SYN (conn st)\<rparr>) st) (\<lambda>st.
     bind (createPacket ser (Client (conn st)) (Server (conn st)) None st) (\<lambda>st.
     bind (modify (Client (conn st)) (\<lambda>x. x\<lparr>Seq := Seq x + 1\<rparr>) st) (\<lambda>st.
     bind (set_flags (Server (conn st)) True True False st) (\<lambda>st.
     bind (set_ack_from (Server (conn st)) (Client (conn st)) st) (\<lambda>st.
     bind (modify (Server (conn st)) (\<lambda>x. x\<lparr>Options := Options_SYNACK (conn st)\<rparr>) st) (\<lambda>st.
     bind (createPacket ser (Server (conn st)) (Client (conn st)) None st) (\<lambda>st.
     bind (modify (Server (conn st)) (\<lambda>x. x\<lparr>Seq := Seq x + 1\<rparr>) st) (\<lambda>st.
     bind (modify (Client (conn st)) (\<lambda>x. x\<lparr>Options := Options_ACK (conn st)\<rparr>) st) (\<lambda>st.
     bind (modify (Server (conn st)) (\<lambda>x. x\<lparr>Options := Options_ACK (conn st)\<rparr>) st) (\<lambda>st.
     bind (set_flags (Client (conn st)) False True False st) (\<lambda>st.
     bind (set_ack_from (Client (conn st)) (Server (conn st)) st) (\<lambda>st.
     createPacket ser (Client (conn st)) (Server (conn st)) None st))))))))))))))"

definition Send ::
  "'opt serializer \<Rightarrow> addr \<Rightarrow> addr \<Rightarrow> byte list option \<Rightarrow> 'opt state \<Rightarrow> error + 'opt state" where
  "Send ser sender receiver payload st =
     bind (set_flags sender False True False st) (\<lambda>st.
     bind (set_ack_from sender receiver st) (\<lambda>st.
     bind (createPacket ser sender receiver payload st) (\<lambda>st.
     bind (modify sender (\<lambda>x. x\<lparr>Seq := Seq x + of_nat (len payload)\<rparr>) st) (\<lambda>st.
     bind (set_flags receiver False True False st) (\<lambda>st.
     bind (set_ack_from receiver sender st) (\<lambda>st.
     createPacket ser receiver sender None st))))))"

definition Disconnect :: "'opt serializer \<Rightarrow> 'opt state \<Rightarrow> error + 'opt state" where
  "Disconnect ser st =
     bind (set_flags (Client (conn st)) False True True st) (\<lambda>st.
     bind (set_ack_from (Client (conn st)) (Server (conn st)) st) (\<lambda>st.
     bind (createPacket ser (Client (conn st)) (Server (conn st)) None st) (\<lambda>st.
     bind (modify (Client (conn st)) (\<lambda>x. x\<lparr>Seq := Seq x + 1\<rparr>) st) (\<lambda>st.
     bind (set_flags (Server (conn st)) False True True st) (\<lambda>st.
     bind (set_ack_from (Server (conn st)) (Client (conn st)) st) (\<lambda>st.
     bind (createPacket ser (Server (conn st)) (Client (conn st)) None st) (\<lambda>st.
     bind (modify (Server (conn st)) (\<lambda>x. x\<lparr>Seq := Seq x + 1\<rparr>) st) (\<lambda>st.
     bind (set_flags (Client (conn st)) False True False st) (\<lambda>st.
     bind (set_ack_from (Client (conn st)) (Server (conn st)) st) (\<lambda>st.
     createPacket ser (Client (conn st)) (Server (conn st)) None st))))))))))"

subsection \<open>Scripts of calls\<close>

text \<open>A caller's script: the exported functions of a \<open>Conn\<close>, called one after the other.
  The process stops at the first call that stops it.\<close>

datatype call = CallConnect | CallSend addr addr "byte list option" | CallDisconnect

fun perform :: "'opt serializer \<Rightarrow> call \<Rightarrow> 'opt state \<Rightarrow> error + 'opt state" where
  "perform ser CallConnect st = Connect ser st"
| "perform ser (CallSend sender receiver payload) st = Send ser sender receiver payload st"
| "perform ser CallDisconnect st = Disconnect ser st"

fun script :: "'opt serializer \<Rightarrow> call list \<Rightarrow> 'opt state \<Rightarrow> error + 'opt state" where
  "script ser [] st = Inr st"
| "script ser (c # cs) st = bind (perform ser c st) (script ser cs)"

text \<open>The number of calls of \<open>createPacket\<close> in the body of each function.\<close>

fun frame_count :: "call \<Rightarrow> nat" where
  "frame_count CallConnect = 3"
| "frame_count (CallSend sender receiver payload) = 2"
| "frame_count CallDisconnect = 3"

subsection \<open>A small serializer and a few peers, for concrete runs\<close>

text \<open>
  gopacket is not part of the repository, so the theorems below hold for every
  serializer. To run the functions on concrete input, \<open>demo_serializer\<close> stands in for
  it: it accepts Ethernet, IPv4 and TCP headers with an optional payload, refuses a nil
  IP address, and writes the fields one after the other. Options are single bytes here;
  like a serializer that walks the list of options, it writes their number and then
  each of them, so that no options and an empty list of options give the same bytes.
\<close>

definition be32 :: "32 word \<Rightarrow> byte list" where
  "be32 w = [ucast (drop_bit 24 w), ucast (drop_bit 16 w), ucast (drop_bit 8 w), ucast w]"

definition demo_tcp :: "byte TCP \<Rightarrow> byte list" where
  "demo_tcp t =
     (let os = (case TCP_Options t of None \<Rightarrow> [] | Some os \<Rightarrow> os) in
      of_nat (length os) #
      [of_bool (TCP_SYN t), of_bool (TCP_ACK t), of_bool (TCP_FIN t)] @
      be32 (TCP_Seq t) @ be32 (TCP_Ack t) @ os)"

definition demo_serializer :: "byte serializer" where
  "demo_serializer so ls =
     (case ls of
        [LEthernet e, LIPv4 i, LTCP t] \<Rightarrow>
          (case (SrcIP i, DstIP i) of
             (Some src, Some dst) \<Rightarrow> Some (demo_tcp t @ DstMAC e @ SrcMAC e @ src @ dst)
           | _ \<Rightarrow> None)
      | [LEthernet e, LIPv4 i, LTCP t, LPayload pl] \<Rightarrow>
          (case (SrcIP i, DstIP i) of
             (Some src, Some dst) \<Rightarrow> Some (demo_tcp t @ DstMAC e @ SrcMAC e @ src @ dst @ pl)
           | _ \<Rightarrow> None)
      | _ \<Rightarrow> None)"

definition demo_client :: "byte Peer" where
  "demo_client =
     \<lparr>MAC = [2, 0, 0, 0, 0, 1], IP = Some [10, 0, 0, 1], Port = 49152, Seq = 100, Ack = 0,
      Flags = \<lparr>SYN = False, ACK = False, FIN = False\<rparr>, Options = None\<rparr>"

definition demo_server :: "byte Peer" where
  "demo_server =
     \<lparr>MAC = [2, 0, 0, 0, 0, 2], IP = Some [10, 0, 0, 2], Port = 80, Seq = 500, Ack = 0,
      Flags = \<lparr>SYN = False, ACK = False, FIN = False\<rparr>, Options = None\<rparr>"

text \<open>Two parsers that know the addresses of the two peers and nothing else.\<close>

definition demo_ParseMAC :: "string \<Rightarrow> byte list option" where
  "demo_ParseMAC str =
     (if str = ''02:00:00:00:00:01'' then Some [2, 0, 0, 0, 0, 1]
      else if str = ''02:00:00:00:00:02'' then Some [2, 0, 0, 0, 0, 2]
      else None)"

definition demo_ParseIP :: "string \<Rightarrow> byte list option" where
  "demo_ParseIP str =
     (if str = ''10.0.0.1'' then Some [10, 0, 0, 1]
      else if str = ''10.0.0.2'' then Some [10, 0, 0, 2]
      else None)"

definition demo_state :: "byte state" where
  "demo_state = \<lparr>conn = NewConn 0 1, peers = [0 \<mapsto> demo_client, 1 \<mapsto> demo_server]\<rparr>"

definition demo_options :: "byte list option" where
  "demo_options = Some [2, 4, 5, 180]"

definition demo_state_with_options :: "byte state" where
  "demo_state_with_options =
     demo_state\<lparr>conn := (conn demo_state)\<lparr>Options_SYN := demo_options,
                                             Options_SYNACK := demo_options\<rparr>\<rparr>"

text \<open>The connection with two frames already in the packet store.\<close>

definition demo_state_stored :: "byte state" where
  "demo_state_stored = demo_state\<lparr>conn := (conn demo_state)\<lparr>Packets := [[222, 173], [190]]\<rparr>\<rparr>"

text \<open>A third peer, with options of its own, in the store of the connection with
  options.\<close>

definition demo_third :: "byte Peer" where
  "demo_third =
     \<lparr>MAC = [2, 0, 0, 0, 0, 3], IP = Some [10, 0, 0, 3], Port = 8080, Seq = 900, Ack = 0,
      Flags = \<lparr>SYN = False, ACK = False, FIN = False\<rparr>, Options = Some [1, 1]\<rparr>"

definition demo_state_with_third :: "byte state" where
  "demo_state_with_third =
     demo_state_with_options\<lparr>peers := (peers demo_state_with_options)(2 \<mapsto> demo_third)\<rparr>"

subsection \<open>Notions used to state the properties\<close>

text \<open>
  The layers that \<open>createPacket\<close> builds for a frame from \<open>src\<close> to \<open>dst\<close>, as a function
  of what changes from frame to frame: the three flags SYN, ACK and FIN, the sequence
  number, the acknowledgment number, the options and the payload (lemma
  \<open>layers_of_segment\<close> below). The peers give the addresses and the ports.
\<close>

definition segment ::
  "'opt Peer \<Rightarrow> 'opt Peer \<Rightarrow> bool \<Rightarrow> bool \<Rightarrow> bool \<Rightarrow> 32 word \<Rightarrow> 32 word \<Rightarrow>
   'opt list option \<Rightarrow> byte list option \<Rightarrow> 'opt Layer list" where
  "segment src dst syn ack fin seqno ackno os payload =
     LEthernet \<lparr>SrcMAC = MAC src, DstMAC = MAC dst, EthernetType = EthernetTypeIPv4\<rparr> #
     LIPv4 \<lparr>Version = 4, IPv4_Flags = IPv4DontFragment, Id = 1, TTL = 64,
            Protocol = IPProtocolTCP, SrcIP = IP src, DstIP = IP dst\<rparr> #
     LTCP \<lparr>SrcPort = Port src, DstPort = Port dst, TCP_SYN = syn, TCP_ACK = ack,
           TCP_FIN = fin, TCP_Seq = seqno, TCP_Ack = ackno, Window = 64000,
           TCP_Options = os\<rparr> #
     (case payload of None \<Rightarrow> [] | Some pl \<Rightarrow> [LPayload pl])"

text \<open>The serializer accepts every frame that \<open>createPacket\<close> builds from a peer with the
  addresses and port of \<open>a\<close> to a peer with those of \<open>b\<close>.\<close>

definition accepts :: "'opt serializer \<Rightarrow> 'opt Peer \<Rightarrow> 'opt Peer \<Rightarrow> bool" where
  "accepts ser a b =
     (\<forall>s r payload.
        MAC s = MAC a \<and> IP s = IP a \<and> Port s = Port a \<and>
        MAC r = MAC b \<and> IP r = IP b \<and> Port r = Port b \<longrightarrow>
        serialize ser s r payload \<noteq> None)"

text \<open>A stored frame carries the option list \<open>os\<close> when it is the serialization of
  Ethernet, IPv4 and TCP headers (and maybe a payload) whose TCP header has \<open>os\<close> in its
  options field.\<close>

definition carries :: "'opt serializer \<Rightarrow> 'opt list option \<Rightarrow> byte list \<Rightarrow> bool" where
  "carries ser os f =
     (\<exists>eth ip tcp rest.
        TCP_Options tcp = os \<and> ser opts (LEthernet eth # LIPv4 ip # LTCP tcp # rest) = Some f)"

text \<open>A frame is sent by \<open>s\<close> with the option list \<open>os\<close> when it is the serialization of
  the headers that \<open>createPacket\<close> builds from the addresses and the port of \<open>s\<close>, with
  \<open>os\<close> in the options field.\<close>

definition sent_with :: "'opt serializer \<Rightarrow> 'opt Peer \<Rightarrow> 'opt list option \<Rightarrow> byte list \<Rightarrow> bool" where
  "sent_with ser s os f =
     (\<exists>r syn ack fin seqno ackno payload.
        ser opts (segment s r syn ack fin seqno ackno os payload) = Some f)"

text \<open>The first argument of each call of \<open>createPacket\<close> in the body of a function: the
  pointer to the sender of each of its frames, in order.\<close>

fun senders :: "'opt Conn \<Rightarrow> call \<Rightarrow> addr list" where
  "senders c CallConnect = [Client c, Server c, Client c]"
| "senders c (CallSend sender receiver payload) = [sender, receiver]"
| "senders c CallDisconnect = [Client c, Server c, Client c]"

text \<open>What no function but \<open>Connect\<close> changes: the addresses, the port and the options of
  every peer of the store, and the two pointers of the connection.\<close>

definition same_peer :: "'opt Peer \<Rightarrow> 'opt Peer \<Rightarrow> bool" where
  "same_peer x y = (MAC y = MAC x \<and> IP y = IP x \<and> Port y = Port x \<and> Options y = Options x)"

definition kept :: "'opt state \<Rightarrow> 'opt state \<Rightarrow> bool" where
  "kept st st' =
     (Client (conn st') = Client (conn st) \<and> Server (conn st') = Server (conn st) \<and>
      (\<forall>a. rel_option same_peer (peers st a) (peers st' a)))"

text \<open>The frame \<open>f\<close> is sent by the peer that the store of \<open>st\<close> holds at \<open>p\<close>, with the
  options of that peer.\<close>

definition sends_own :: "'opt serializer \<Rightarrow> 'opt state \<Rightarrow> addr \<Rightarrow> byte list \<Rightarrow> bool" where
  "sends_own ser st p f =
     (case peers st p of None \<Rightarrow> False | Some s \<Rightarrow> sent_with ser s (Options s) f)"

text \<open>Both peers of the connection are in the store and hold the option list \<open>os\<close>.\<close>

definition both_hold :: "'opt state \<Rightarrow> 'opt list option \<Rightarrow> bool" where
  "both_hold st os =
     (case peers st (Client (conn st)) of
        None \<Rightarrow> False
      | Some cl \<Rightarrow>
          (case peers st (Server (conn st)) of
             None \<Rightarrow> False
           | Some sv \<Rightarrow> Options cl = os \<and> Options sv = os))"

text \<open>The frames of a result; none when the process has stopped.\<close>

definition packets_of :: "error + 'opt state \<Rightarrow> byte list list" where
  "packets_of res = (case res of Inl e \<Rightarrow> [] | Inr st \<Rightarrow> Packets (conn st))"

text \<open>
  To speak about the state at each call of \<open>createPacket\<close>, the three functions are
  written once more with the packet builder \<open>cp\<close> in place of \<open>createPacket ser\<close>,
  and are otherwise the same text (lemmas \<open>Connect_with_createPacket\<close>,
  \<open>Send_with_createPacket\<close> and \<open>Disconnect_with_createPacket\<close> below).
\<close>

type_synonym 'opt builder =
  "addr \<Rightarrow> addr \<Rightarrow> byte list option \<Rightarrow> 'opt state \<Rightarrow> error + 'opt state"

definition Connect_with :: "'opt builder \<Rightarrow> 'opt state \<Rightarrow> error + 'opt state" where
  "Connect_with cp st =
     bind (set_flags (Client (conn st)) True False False st) (\<lambda>st.
     bind (modify (Client (conn st)) (\<lambda>x. x\<lparr>Ack := 0\<rparr>) st) (\<lambda>st.
     bind (modify (Client (conn st)) (\<lambda>x. x\<lparr>Options := Options_SYN (conn st)\<rparr>) st) (\<lambda>st.
     bind (cp (Client (conn st)) (Server (conn st)) None st) (\<lambda>st.
     bind (modify (Client (conn st)) (\<lambda>x. x\<lparr>Seq := Seq x + 1\<rparr>) st) (\<lambda>st.
     bind (set_flags (Server (conn st)) True True False st) (\<lambda>st.
     bind (set_ack_from (Server (conn st)) (Client (conn st)) st) (\<lambda>st.
     bind (modify (Server (conn st)) (\<lambda>x. x\<lparr>Options := Options_SYNACK (conn st)\<rparr>) st) (\<lambda>st.
     bind (cp (Server (conn st)) (Client (conn st)) None st) (\<lambda>st.
     bind (modify (Server (conn st)) (\<lambda>x. x\<lparr>Seq := Seq x + 1\<rparr>) st) (\<lambda>st.
     bind (modify (Client (conn st)) (\<lambda>x. x\<lparr>Options := Options_ACK (conn st)\<rparr>) st) (\<lambda>st.
     bind (modify (Server (conn st)) (\<lambda>x. x\<lparr>Options := Options_ACK (conn st)\<rparr>) st) (\<lambda>st.
     bind (set_flags (Client (conn st)) False True False st) (\<lambda>st.
     bind (set_ack_from (Client (conn st)) (Server (conn st)) st) (\<lambda>st.
     cp (Client (conn st)) (Server (conn st)) None st))))))))))))))"

definition Send_with ::
  "'opt builder \<Rightarrow> addr \<Rightarrow> addr \<Rightarrow> byte list option \<Rightarrow> 'opt state \<Rightarrow> error + 'opt state" where
  "Send_with cp sender receiver payload st =
     bind (set_flags sender False True False st) (\<lambda>st.
     bind (set_ack_from sender receiver st) (\<lambda>st.
     bind (cp sender receiver payload st) (\<lambda>st.
     bind (modify sender (\<lambda>x. x\<lparr>Seq := Seq x + of_nat (len payload)\<rparr>) st) (\<lambda>st.
     bind (set_flags receiver False True False st) (\<lambda>st.
     bind (set_ack_from receiver sender st) (\<lambda>st.
     cp receiver sender None st))))))"

definition Disconnect_with :: "'opt builder \<Rightarrow> 'opt state \<Rightarrow> error + 'opt state" where
  "Disconnect_with cp st =
     bind (set_flags (Client (conn st)) False True True st) (\<lambda>st.
     bind (set_ack_from (Client (conn st)) (Server (conn st)) st) (\<lambda>st.
     bind (cp (Client (conn st)) (Server (conn st)) None st) (\<lambda>st.
     bind (modify (Client (conn st)) (\<lambda>x. x\<lparr>Seq := Seq x + 1\<rparr>) st) (\<lambda>st.
     bind (set_flags (Server (conn st)) False True True st) (\<lambda>st.
     bind (set_ack_from (Server (conn st)) (Client (conn st)) st) (\<lambda>st.
     bind (cp (Server (conn st)) (Client (conn st)) None st) (\<lambda>st.
     bind (modify (Server (conn st)) (\<lambda>x. x\<lparr>Seq := Seq x + 1\<rparr>) st) (\<lambda>st.
     bind (set_flags (Client (conn st)) False True False st) (\<lambda>st.
     bind (set_ack_from (Client (conn st)) (Server (conn st)) st) (\<lambda>st.
     cp (Client (conn st)) (Server (conn st)) None st))))))))))"

text \<open>
  The packet builder that the property of the acknowledgment numbers describes. It
  stores the serialization of the headers from the sender to the receiver with the
  sender's flags, sequence number and options, and in the acknowledgment field, when the
  sender's ACK flag is set, the sequence number that the receiver holds in the store at
  the moment of the call (and the sender's \<open>Ack\<close> field when the flag is not set).
\<close>

definition current_ack_builder :: "'opt serializer \<Rightarrow> 'opt builder" where
  "current_ack_builder ser sender receiver payload st =
     (case peers st sender of
        None \<Rightarrow> Inl NilDereference
      | Some s \<Rightarrow>
          (case peers st receiver of
             None \<Rightarrow> Inl NilDereference
           | Some r \<Rightarrow>
               (case ser opts
                       (segment s r (SYN (Flags s)) (ACK (Flags s)) (FIN (Flags s)) (Seq s)
                          (if ACK (Flags s) then Seq r else Ack s) (Options s) payload) of
                  None \<Rightarrow> Inl SerializationFailure
                | Some f \<Rightarrow>
                    Inr (st\<lparr>conn := (conn st)\<lparr>Packets := Packets (conn st) @ [f]\<rparr>\<rparr>))))"

section \<open>Properties\<close>

subsection \<open>Basic facts\<close>

lemma bind_Inr [simp]: "bind (Inr x) f = f x"
  and bind_Inl [simp]: "bind (Inl e) f = Inl e"
  by (simp_all add: bind_def)

lemma bind_eq_Inr: "bind m f = Inr y \<longleftrightarrow> (\<exists>x. m = Inr x \<and> f x = Inr y)"
  by (cases m) simp_all

text \<open>The copy loop leaves the slots before \<open>i\<close> and after the copied frames alone.\<close>

lemma copy_packets_eq:
  "i + length old \<le> length packets \<Longrightarrow>
   copy_packets old i packets = take i packets @ old @ drop (i + length old) packets"
proof (induction old arbitrary: i packets)
  case Nil
  then show ?case by simp
next
  case (Cons p ps)
  from Cons.prems have i: "i < length packets" by simp
  from Cons.prems have len: "Suc i + length ps \<le> length (packets[i := p])" by simp
  have front: "take (Suc i) (packets[i := p]) = take i packets @ [p]"
    using i by (simp add: take_Suc_conv_app_nth)
  have rest: "drop (Suc i + length ps) (packets[i := p]) = drop (i + length (p # ps)) packets"
    by simp
  have "copy_packets (p # ps) i packets = copy_packets ps (Suc i) (packets[i := p])"
    by simp
  also have "\<dots> = take (Suc i) (packets[i := p]) @ ps @ drop (Suc i + length ps) (packets[i := p])"
    by (rule Cons.IH [OF len])
  finally show ?case
    unfolding front rest by simp
qed

lemma append_packet_eq [simp]: "append_packet old buf = old @ [buf]"
proof -
  let ?new = "replicate (length old + 1) ([] :: byte list)"
  have "copy_packets old 0 ?new = take 0 ?new @ old @ drop (0 + length old) ?new"
    by (rule copy_packets_eq) simp
  also have "drop (0 + length old) ?new = [[]]"
    by (induction old) simp_all
  finally have copied: "copy_packets old 0 ?new = old @ [[]]"
    by simp
  show ?thesis
    unfolding append_packet_def Let_def copied by simp
qed

lemma Flags_all [simp]:
  "(fl::Flags)\<lparr>SYN := a, ACK := b, FIN := c\<rparr> = \<lparr>SYN = a, ACK = b, FIN = c\<rparr>"
  by (cases fl) simp

text \<open>The primitives on a store that holds the peers they read.\<close>

lemma modify_Some [simp]:
  "peers st p = Some x \<Longrightarrow> modify p f st = Inr (st\<lparr>peers := (peers st)(p \<mapsto> f x)\<rparr>)"
  by (simp add: modify_def)

lemma deref_Some [simp]: "peers st p = Some x \<Longrightarrow> deref p st = Inr x"
  by (simp add: deref_def)

lemma set_flags_Some [simp]:
  "peers st p = Some x \<Longrightarrow>
   set_flags p a b c st =
     Inr (st\<lparr>peers := (peers st)(p \<mapsto> x\<lparr>Flags := \<lparr>SYN = a, ACK = b, FIN = c\<rparr>\<rparr>)\<rparr>)"
  by (simp add: set_flags_def)

lemma set_ack_from_Some [simp]:
  "peers st p = Some x \<Longrightarrow> peers st q = Some y \<Longrightarrow>
   set_ack_from p q st = Inr (st\<lparr>peers := (peers st)(p \<mapsto> x\<lparr>Ack := Seq y\<rparr>)\<rparr>)"
  by (simp add: set_ack_from_def)

lemma createPacket_Some [simp]:
  "peers st p = Some s \<Longrightarrow> peers st q = Some r \<Longrightarrow>
   createPacket ser p q payload st =
     (case serialize ser s r payload of
        None \<Rightarrow> Inl SerializationFailure
      | Some buf \<Rightarrow> Inr (st\<lparr>conn := (conn st)\<lparr>Packets := Packets (conn st) @ [buf]\<rparr>\<rparr>))"
  by (simp add: createPacket_def split: option.splits)

text \<open>What a call that returns has done to the connection.\<close>

lemma modify_Inr: "modify p f st = Inr st' \<Longrightarrow> conn st' = conn st"
  by (auto simp: modify_def split: option.splits)

lemma set_flags_Inr: "set_flags p a b c st = Inr st' \<Longrightarrow> conn st' = conn st"
  unfolding set_flags_def by (rule modify_Inr)

lemma set_ack_from_Inr: "set_ack_from p q st = Inr st' \<Longrightarrow> conn st' = conn st"
  by (auto simp: set_ack_from_def deref_def modify_def split: option.splits)

lemma createPacket_Inr:
  "createPacket ser p q payload st = Inr st' \<Longrightarrow>
   \<exists>f. st' = st\<lparr>conn := (conn st)\<lparr>Packets := Packets (conn st) @ [f]\<rparr>\<rparr>"
  by (auto simp: createPacket_def deref_def bind_eq_Inr split: option.splits)

lemma Connect_appends:
  assumes "Connect ser st = Inr st'"
  shows "\<exists>f1 f2 f3. conn st' = (conn st)\<lparr>Packets := Packets (conn st) @ [f1, f2, f3]\<rparr>"
  using assms unfolding Connect_def bind_eq_Inr
  apply (clarsimp dest!: modify_Inr set_flags_Inr set_ack_from_Inr createPacket_Inr)
  apply (intro exI)
  apply (rule refl)
  done

lemma Send_appends:
  assumes "Send ser p q payload st = Inr st'"
  shows "\<exists>f1 f2. conn st' = (conn st)\<lparr>Packets := Packets (conn st) @ [f1, f2]\<rparr>"
  using assms unfolding Send_def bind_eq_Inr
  apply (clarsimp dest!: modify_Inr set_flags_Inr set_ack_from_Inr createPacket_Inr)
  apply (intro exI)
  apply (rule refl)
  done

lemma Disconnect_appends:
  assumes "Disconnect ser st = Inr st'"
  shows "\<exists>f1 f2 f3. conn st' = (conn st)\<lparr>Packets := Packets (conn st) @ [f1, f2, f3]\<rparr>"
  using assms unfolding Disconnect_def bind_eq_Inr
  apply (clarsimp dest!: modify_Inr set_flags_Inr set_ack_from_Inr createPacket_Inr)
  apply (intro exI)
  apply (rule refl)
  done

lemma perform_appends:
  assumes "perform ser c st = Inr st'"
  shows "\<exists>fs. conn st' = (conn st)\<lparr>Packets := Packets (conn st) @ fs\<rparr> \<and> length fs = frame_count c"
proof (cases c)
  case CallConnect
  with assms obtain f1 f2 f3
    where "conn st' = (conn st)\<lparr>Packets := Packets (conn st) @ [f1, f2, f3]\<rparr>"
    using Connect_appends [of ser st st'] by auto
  with CallConnect show ?thesis
    by (intro exI [of _ "[f1, f2, f3]"]) simp
next
  case (CallSend p q payload)
  with assms obtain f1 f2
    where "conn st' = (conn st)\<lparr>Packets := Packets (conn st) @ [f1, f2]\<rparr>"
    using Send_appends [of ser p q payload st st'] by auto
  with CallSend show ?thesis
    by (intro exI [of _ "[f1, f2]"]) simp
next
  case CallDisconnect
  with assms obtain f1 f2 f3
    where "conn st' = (conn st)\<lparr>Packets := Packets (conn st) @ [f1, f2, f3]\<rparr>"
    using Disconnect_appends [of ser st st'] by auto
  with CallDisconnect show ?thesis
    by (intro exI [of _ "[f1, f2, f3]"]) simp
qed

lemma script_appends:
  "script ser cs st = Inr st' \<Longrightarrow>
   \<exists>fs. conn st' = (conn st)\<lparr>Packets := Packets (conn st) @ fs\<rparr> \<and>
        length fs = sum_list (map frame_count cs)"
proof (induction cs arbitrary: st)
  case Nil
  then show ?case by simp
next
  case (Cons c cs)
  from Cons.prems obtain st1
    where first: "perform ser c st = Inr st1" and rest: "script ser cs st1 = Inr st'"
    by (auto simp: bind_eq_Inr)
  from perform_appends [OF first] obtain fs
    where fs: "conn st1 = (conn st)\<lparr>Packets := Packets (conn st) @ fs\<rparr>" "length fs = frame_count c"
    by blast
  from Cons.IH [OF rest] obtain gs
    where gs: "conn st' = (conn st1)\<lparr>Packets := Packets (conn st1) @ gs\<rparr>"
      "length gs = sum_list (map frame_count cs)"
    by blast
  from fs gs show ?case
    by (intro exI [of _ "fs @ gs"]) simp
qed

subsection \<open>Evaluating the concrete runs\<close>

lemmas demo_defs = demo_state_def demo_client_def demo_server_def NewConn_def serialize_def
  layers_of_def mk_eth_def mk_ip_def mk_tcp_def demo_serializer_def demo_tcp_def be32_def

subsection \<open>The options field of the TCP header\<close>

lemma TCP_Options_mk_tcp: "TCP_Options (mk_tcp s r) = Options s"
  by (simp add: mk_tcp_def Let_def split: option.splits)

text \<open>
  C7 (amended). \<open>createPacket\<close> serializes the Ethernet, IPv4 and TCP headers built from
  the sender and the receiver, followed by the payload when there is one, and the
  options field of that TCP header is the sender's \<open>Options\<close> field: nil when the
  sender's field is nil, and the same list, the empty one included, when it is not. Nil
  and the empty list are two different values of the field of the \<open>Peer\<close> and of the
  header handed to the serializer; the stored frames need not differ.
\<close>

theorem options_written_verbatim:
  "serialize ser s r payload =
     ser opts (LEthernet (mk_eth s r) # LIPv4 (mk_ip s r) # LTCP (mk_tcp s r) #
               (case payload of None \<Rightarrow> [] | Some pl \<Rightarrow> [LPayload pl])) \<and>
   TCP_Options (mk_tcp s r) = Options s \<and>
   (peers st p = Some s \<and> peers st q = Some r \<longrightarrow>
      createPacket ser p q payload st =
        (case serialize ser s r payload of
           None \<Rightarrow> Inl SerializationFailure
         | Some buf \<Rightarrow> Inr (st\<lparr>conn := (conn st)\<lparr>Packets := Packets (conn st) @ [buf]\<rparr>\<rparr>))) \<and>
   TCP_Options (mk_tcp (s\<lparr>Options := None\<rparr>) r) = None \<and>
   TCP_Options (mk_tcp (s\<lparr>Options := Some os\<rparr>) r) = Some os \<and>
   mk_tcp (s\<lparr>Options := None\<rparr>) r \<noteq> mk_tcp (s\<lparr>Options := Some []\<rparr>) r"
proof (intro conjI impI)
  show "serialize ser s r payload =
     ser opts (LEthernet (mk_eth s r) # LIPv4 (mk_ip s r) # LTCP (mk_tcp s r) #
               (case payload of None \<Rightarrow> [] | Some pl \<Rightarrow> [LPayload pl]))"
    by (cases payload) (simp_all add: serialize_def layers_of_def)
next
  assume "peers st p = Some s \<and> peers st q = Some r"
  then show "createPacket ser p q payload st =
        (case serialize ser s r payload of
           None \<Rightarrow> Inl SerializationFailure
         | Some buf \<Rightarrow> Inr (st\<lparr>conn := (conn st)\<lparr>Packets := Packets (conn st) @ [buf]\<rparr>\<rparr>))"
    by simp
next
  show "mk_tcp (s\<lparr>Options := None\<rparr>) r \<noteq> mk_tcp (s\<lparr>Options := Some []\<rparr>) r"
  proof
    assume "mk_tcp (s\<lparr>Options := None\<rparr>) r = mk_tcp (s\<lparr>Options := Some []\<rparr>) r"
    then have "TCP_Options (mk_tcp (s\<lparr>Options := None\<rparr>) r) =
               TCP_Options (mk_tcp (s\<lparr>Options := Some []\<rparr>) r)"
      by simp
    then show False
      by (simp add: TCP_Options_mk_tcp)
  qed
qed (simp_all add: TCP_Options_mk_tcp)

theorem options_written_verbatim_witness:
  "peers demo_state 0 = Some demo_client \<and> peers demo_state 1 = Some demo_server \<and>
   createPacket demo_serializer 0 1 None demo_state =
     (case serialize demo_serializer demo_client demo_server None of
        None \<Rightarrow> Inl SerializationFailure
      | Some buf \<Rightarrow>
          Inr (demo_state\<lparr>conn := (conn demo_state)\<lparr>Packets := Packets (conn demo_state) @ [buf]\<rparr>\<rparr>)) \<and>
   mk_tcp (demo_client\<lparr>Options := None\<rparr>) demo_server \<noteq>
   mk_tcp (demo_client\<lparr>Options := Some []\<rparr>) demo_server"
proof -
  have a: "peers demo_state 0 = Some demo_client" and b: "peers demo_state 1 = Some demo_server"
    by (simp_all add: demo_state_def)
  from a b options_written_verbatim [where st = demo_state and p = 0 and q = 1
      and s = demo_client and r = demo_server and ser = demo_serializer and payload = None]
  show ?thesis
    by blast
qed

text \<open>
  C7 as first worded has nil and the empty list as two observably distinct states. That
  fails for the frames: a sender without options and a sender with the empty list of
  options are different peers and give different headers, but a serializer that writes
  the options one after the other stores the same bytes for both, as the wire format of
  TCP does, which has no place for the difference. Here one call of \<open>createPacket\<close>
  stores the same frame for both senders, and a connection stores the same six frames
  for \<open>Connect\<close> and \<open>Disconnect\<close> whether its three option lists are nil or empty.
\<close>

theorem options_nil_or_empty_counterexample:
  "Options (demo_client\<lparr>Options := None\<rparr>) \<noteq> Options (demo_client\<lparr>Options := Some []\<rparr>) \<and>
   mk_tcp (demo_client\<lparr>Options := None\<rparr>) demo_server \<noteq>
     mk_tcp (demo_client\<lparr>Options := Some []\<rparr>) demo_server \<and>
   length (packets_of (createPacket demo_serializer 0 1 None
     (demo_state\<lparr>peers := (peers demo_state)(0 \<mapsto> demo_client\<lparr>Options := None\<rparr>)\<rparr>))) = 1 \<and>
   packets_of (createPacket demo_serializer 0 1 None
     (demo_state\<lparr>peers := (peers demo_state)(0 \<mapsto> demo_client\<lparr>Options := None\<rparr>)\<rparr>)) =
   packets_of (createPacket demo_serializer 0 1 None
     (demo_state\<lparr>peers := (peers demo_state)(0 \<mapsto> demo_client\<lparr>Options := Some []\<rparr>)\<rparr>)) \<and>
   packets_of (script demo_serializer [CallConnect, CallDisconnect] demo_state) =
   packets_of (script demo_serializer [CallConnect, CallDisconnect]
     (demo_state\<lparr>conn := (conn demo_state)\<lparr>Options_SYN := Some [], Options_SYNACK := Some [],
        Options_ACK := Some []\<rparr>\<rparr>)) \<and>
   length (packets_of (script demo_serializer [CallConnect, CallDisconnect] demo_state)) = 6"
  by (simp add: packets_of_def Connect_def Disconnect_def demo_defs Let_def)

subsection \<open>The packet store only grows at its end\<close>

text \<open>
  C8. A call of \<open>createPacket\<close> on two peers whose headers serialize to \<open>f\<close> returns the
  state whose packet store is the old one followed by \<open>f\<close>; every call of
  \<open>createPacket\<close> that returns has added exactly one frame behind the frames stored
  before; and after any script of \<open>Connect\<close>, \<open>Send\<close> and \<open>Disconnect\<close> calls the old
  store is a prefix of the new one, which holds 3, 2 and 3 more frames for the
  respective calls.
\<close>

theorem packet_store_append_only:
  "(peers st p = Some s \<and> peers st q = Some r \<and> serialize ser s r payload = Some f \<longrightarrow>
      createPacket ser p q payload st =
        Inr (st\<lparr>conn := (conn st)\<lparr>Packets := Packets (conn st) @ [f]\<rparr>\<rparr>)) \<and>
   (createPacket ser p q payload st = Inr sta \<longrightarrow>
      (\<exists>f. Packets (conn sta) = Packets (conn st) @ [f])) \<and>
   (script ser cs st = Inr stb \<longrightarrow>
      (\<exists>fs. Packets (conn stb) = Packets (conn st) @ fs \<and>
            length fs = sum_list (map frame_count cs)))"
proof (intro conjI impI)
  assume "peers st p = Some s \<and> peers st q = Some r \<and> serialize ser s r payload = Some f"
  then show "createPacket ser p q payload st =
        Inr (st\<lparr>conn := (conn st)\<lparr>Packets := Packets (conn st) @ [f]\<rparr>\<rparr>)"
    by simp
next
  assume "createPacket ser p q payload st = Inr sta"
  from createPacket_Inr [OF this] show "\<exists>f. Packets (conn sta) = Packets (conn st) @ [f]"
    by auto
next
  assume "script ser cs st = Inr stb"
  from script_appends [OF this]
  show "\<exists>fs. Packets (conn stb) = Packets (conn st) @ fs \<and>
            length fs = sum_list (map frame_count cs)"
    by auto
qed

theorem packet_store_append_only_witness:
  "\<exists>f sta stb fs.
     peers demo_state_stored 0 = Some demo_client \<and>
     peers demo_state_stored 1 = Some demo_server \<and>
     Packets (conn demo_state_stored) = [[222, 173], [190]] \<and>
     serialize demo_serializer demo_client demo_server None = Some f \<and>
     createPacket demo_serializer 0 1 None demo_state_stored = Inr sta \<and>
     Packets (conn sta) = [[222, 173], [190], f] \<and>
     script demo_serializer [CallConnect, CallSend 0 1 (Some [97, 98, 99]), CallDisconnect]
       demo_state_stored = Inr stb \<and>
     Packets (conn stb) = [[222, 173], [190]] @ fs \<and> length fs = 8 \<and>
     Packets (conn stb) ! 0 = [222, 173] \<and> Packets (conn stb) ! 1 = [190] \<and>
     length (Packets (conn stb)) = 10"
proof -
  let ?xs = "[CallConnect, CallSend 0 1 (Some [97, 98, 99]), CallDisconnect]"
  have a: "peers demo_state_stored 0 = Some demo_client"
    and b: "peers demo_state_stored 1 = Some demo_server"
    and old: "Packets (conn demo_state_stored) = [[222, 173], [190]]"
    by (simp_all add: demo_state_stored_def demo_state_def NewConn_def)
  obtain f where f: "serialize demo_serializer demo_client demo_server None = Some f"
    by (simp add: demo_defs)
  obtain stb where stb: "script demo_serializer ?xs demo_state_stored = Inr stb"
    by (simp add: Connect_def Send_def Disconnect_def len_def demo_defs demo_state_stored_def)
  note inst = packet_store_append_only [where st = demo_state_stored and p = 0 and q = 1
      and s = demo_client and r = demo_server and ser = demo_serializer and payload = None
      and f = f and cs = ?xs and stb = stb]
  let ?sta = "demo_state_stored\<lparr>conn := (conn demo_state_stored)
      \<lparr>Packets := Packets (conn demo_state_stored) @ [f]\<rparr>\<rparr>"
  from inst a b f have one: "createPacket demo_serializer 0 1 None demo_state_stored = Inr ?sta"
    by blast
  have kept1: "Packets (conn ?sta) = [[222, 173], [190], f]"
    by (simp add: old)
  from inst stb obtain fs where fs: "Packets (conn stb) = Packets (conn demo_state_stored) @ fs"
    "length fs = sum_list (map frame_count ?xs)"
    by blast
  from fs old have many: "Packets (conn stb) = [[222, 173], [190]] @ fs" "length fs = 8"
    by simp_all
  from many have pos: "Packets (conn stb) ! 0 = [222, 173]" "Packets (conn stb) ! 1 = [190]"
    "length (Packets (conn stb)) = 10"
    by simp_all
  show ?thesis
    by (intro exI [of _ f] exI [of _ ?sta] exI [of _ stb] exI [of _ fs] conjI
        a b old f one kept1 stb many pos)
qed

subsection \<open>Nil pointers, and the functions over any packet builder\<close>

lemma Connect_with_createPacket: "Connect_with (createPacket ser) st = Connect ser st"
  by (simp add: Connect_with_def Connect_def)

lemma Send_with_createPacket: "Send_with (createPacket ser) p q payload st = Send ser p q payload st"
  by (simp add: Send_with_def Send_def)

lemma Disconnect_with_createPacket: "Disconnect_with (createPacket ser) st = Disconnect ser st"
  by (simp add: Disconnect_with_def Disconnect_def)

lemma modify_None [simp]: "peers st p = None \<Longrightarrow> modify p f st = Inl NilDereference"
  by (simp add: modify_def)

lemma set_flags_None [simp]: "peers st p = None \<Longrightarrow> set_flags p a b c st = Inl NilDereference"
  by (simp add: set_flags_def)

lemma set_ack_from_None [simp]:
  "peers st p = None \<Longrightarrow> set_ack_from p q st = Inl NilDereference"
  "peers st q = None \<Longrightarrow> set_ack_from p q st = Inl NilDereference"
  by (auto simp: set_ack_from_def deref_def bind_def split: option.splits)

lemma createPacket_None [simp]:
  "peers st p = None \<Longrightarrow> createPacket ser p q payload st = Inl NilDereference"
  "peers st q = None \<Longrightarrow> createPacket ser p q payload st = Inl NilDereference"
  by (auto simp: createPacket_def deref_def bind_def split: option.splits sum.splits)

subsection \<open>The result of each function\<close>

lemma serialize_receiver [simp]:
  "serialize ser s (r\<lparr>Seq := a\<rparr>) payload = serialize ser s r payload"
  "serialize ser s (r\<lparr>Ack := a\<rparr>) payload = serialize ser s r payload"
  "serialize ser s (r\<lparr>Flags := fl\<rparr>) payload = serialize ser s r payload"
  "serialize ser s (r\<lparr>Options := os\<rparr>) payload = serialize ser s r payload"
  by (cases payload; simp add: serialize_def layers_of_def mk_eth_def mk_ip_def mk_tcp_def)+

lemma layers_of_segment:
  "layers_of s r payload =
     segment s r (SYN (Flags s)) (ACK (Flags s)) (FIN (Flags s)) (Seq s) (Ack s) (Options s)
       payload"
  by (simp add: layers_of_def segment_def mk_eth_def mk_ip_def mk_tcp_def Let_def
      split: option.splits)

lemma serialize_segment:
  "serialize ser s r payload =
     ser opts
       (segment s r (SYN (Flags s)) (ACK (Flags s)) (FIN (Flags s)) (Seq s) (Ack s) (Options s)
          payload)"
  by (simp add: serialize_def layers_of_segment)

lemma segment_src [simp]:
  "segment (s\<lparr>Seq := a\<rparr>) r = segment s r"
  "segment (s\<lparr>Ack := a\<rparr>) r = segment s r"
  "segment (s\<lparr>Flags := fl\<rparr>) r = segment s r"
  "segment (s\<lparr>Options := os\<rparr>) r = segment s r"
  by (simp_all add: segment_def fun_eq_iff)

lemma segment_dst [simp]:
  "segment s (r\<lparr>Seq := a\<rparr>) = segment s r"
  "segment s (r\<lparr>Ack := a\<rparr>) = segment s r"
  "segment s (r\<lparr>Flags := fl\<rparr>) = segment s r"
  "segment s (r\<lparr>Options := os\<rparr>) = segment s r"
  by (simp_all add: segment_def fun_eq_iff)

lemma segment_cong:
  "MAC s' = MAC s \<Longrightarrow> IP s' = IP s \<Longrightarrow> Port s' = Port s \<Longrightarrow>
   MAC r' = MAC r \<Longrightarrow> IP r' = IP r \<Longrightarrow> Port r' = Port r \<Longrightarrow>
   segment s' r' = segment s r"
  by (simp add: segment_def fun_eq_iff)

text \<open>The explicit result of each function on two different peers. The updates of a
  record are written in the order of the assignments in the source.\<close>

lemma Connect_result:
  assumes "Client (conn st) \<noteq> Server (conn st)"
    and "peers st (Client (conn st)) = Some cl"
    and "peers st (Server (conn st)) = Some sv"
  shows "Connect ser st =
    (case serialize ser
            (cl\<lparr>Flags := \<lparr>SYN = True, ACK = False, FIN = False\<rparr>, Ack := 0,
                Options := Options_SYN (conn st)\<rparr>) sv None of
       None \<Rightarrow> Inl SerializationFailure
     | Some f1 \<Rightarrow>
    (case serialize ser
            (sv\<lparr>Flags := \<lparr>SYN = True, ACK = True, FIN = False\<rparr>, Ack := Seq cl + 1,
                Options := Options_SYNACK (conn st)\<rparr>) cl None of
       None \<Rightarrow> Inl SerializationFailure
     | Some f2 \<Rightarrow>
    (case serialize ser
            (cl\<lparr>Seq := Seq cl + 1, Options := Options_ACK (conn st),
                Flags := \<lparr>SYN = False, ACK = True, FIN = False\<rparr>, Ack := Seq sv + 1\<rparr>)
            sv None of
       None \<Rightarrow> Inl SerializationFailure
     | Some f3 \<Rightarrow>
         Inr (st\<lparr>conn := (conn st)\<lparr>Packets := Packets (conn st) @ [f1, f2, f3]\<rparr>,
                 peers := (peers st)
                   (Client (conn st) \<mapsto>
                      cl\<lparr>Seq := Seq cl + 1, Options := Options_ACK (conn st),
                         Flags := \<lparr>SYN = False, ACK = True, FIN = False\<rparr>,
                         Ack := Seq sv + 1\<rparr>,
                    Server (conn st) \<mapsto>
                      sv\<lparr>Flags := \<lparr>SYN = True, ACK = True, FIN = False\<rparr>,
                         Ack := Seq cl + 1, Seq := Seq sv + 1,
                         Options := Options_ACK (conn st)\<rparr>)\<rparr>))))"
  using assms
  by (simp add: Connect_def fun_upd_twist split: option.splits)

lemma Disconnect_result:
  assumes "Client (conn st) \<noteq> Server (conn st)"
    and "peers st (Client (conn st)) = Some cl"
    and "peers st (Server (conn st)) = Some sv"
  shows "Disconnect ser st =
    (case serialize ser
            (cl\<lparr>Flags := \<lparr>SYN = False, ACK = True, FIN = True\<rparr>, Ack := Seq sv\<rparr>) sv None of
       None \<Rightarrow> Inl SerializationFailure
     | Some f1 \<Rightarrow>
    (case serialize ser
            (sv\<lparr>Flags := \<lparr>SYN = False, ACK = True, FIN = True\<rparr>, Ack := Seq cl + 1\<rparr>)
            cl None of
       None \<Rightarrow> Inl SerializationFailure
     | Some f2 \<Rightarrow>
    (case serialize ser
            (cl\<lparr>Seq := Seq cl + 1, Flags := \<lparr>SYN = False, ACK = True, FIN = False\<rparr>,
                Ack := Seq sv + 1\<rparr>) sv None of
       None \<Rightarrow> Inl SerializationFailure
     | Some f3 \<Rightarrow>
         Inr (st\<lparr>conn := (conn st)\<lparr>Packets := Packets (conn st) @ [f1, f2, f3]\<rparr>,
                 peers := (peers st)
                   (Client (conn st) \<mapsto>
                      cl\<lparr>Seq := Seq cl + 1,
                         Flags := \<lparr>SYN = False, ACK = True, FIN = False\<rparr>,
                         Ack := Seq sv + 1\<rparr>,
                    Server (conn st) \<mapsto>
                      sv\<lparr>Flags := \<lparr>SYN = False, ACK = True, FIN = True\<rparr>,
                         Ack := Seq cl + 1, Seq := Seq sv + 1\<rparr>)\<rparr>))))"
  using assms
  by (simp add: Disconnect_def fun_upd_twist split: option.splits)

lemma Send_result:
  assumes "p \<noteq> q"
    and "peers st p = Some s"
    and "peers st q = Some r"
  shows "Send ser p q payload st =
    (case serialize ser
            (s\<lparr>Flags := \<lparr>SYN = False, ACK = True, FIN = False\<rparr>, Ack := Seq r\<rparr>) r payload of
       None \<Rightarrow> Inl SerializationFailure
     | Some f1 \<Rightarrow>
    (case serialize ser
            (r\<lparr>Flags := \<lparr>SYN = False, ACK = True, FIN = False\<rparr>,
               Ack := Seq s + of_nat (len payload)\<rparr>) s None of
       None \<Rightarrow> Inl SerializationFailure
     | Some f2 \<Rightarrow>
         Inr (st\<lparr>conn := (conn st)\<lparr>Packets := Packets (conn st) @ [f1, f2]\<rparr>,
                 peers := (peers st)
                   (p \<mapsto> s\<lparr>Flags := \<lparr>SYN = False, ACK = True, FIN = False\<rparr>,
                            Ack := Seq r, Seq := Seq s + of_nat (len payload)\<rparr>,
                    q \<mapsto> r\<lparr>Flags := \<lparr>SYN = False, ACK = True, FIN = False\<rparr>,
                            Ack := Seq s + of_nat (len payload)\<rparr>)\<rparr>)))"
  using assms
  by (simp add: Send_def fun_upd_twist split: option.splits)

text \<open>The same when both pointers are one peer.\<close>

lemma Send_result_same:
  assumes "peers st p = Some s"
  shows "Send ser p p payload st =
    (case serialize ser
            (s\<lparr>Flags := \<lparr>SYN = False, ACK = True, FIN = False\<rparr>, Ack := Seq s\<rparr>) s payload of
       None \<Rightarrow> Inl SerializationFailure
     | Some f1 \<Rightarrow>
    (case serialize ser
            (s\<lparr>Seq := Seq s + of_nat (len payload),
               Flags := \<lparr>SYN = False, ACK = True, FIN = False\<rparr>,
               Ack := Seq s + of_nat (len payload)\<rparr>) s None of
       None \<Rightarrow> Inl SerializationFailure
     | Some f2 \<Rightarrow>
         Inr (st\<lparr>conn := (conn st)\<lparr>Packets := Packets (conn st) @ [f1, f2]\<rparr>,
                 peers := (peers st)
                   (p \<mapsto> s\<lparr>Seq := Seq s + of_nat (len payload),
                            Flags := \<lparr>SYN = False, ACK = True, FIN = False\<rparr>,
                            Ack := Seq s + of_nat (len payload)\<rparr>)\<rparr>)))"
  using assms
  by (simp add: Send_def split: option.splits)

lemma Connect_result_same:
  assumes "Client (conn st) = Server (conn st)"
    and "peers st (Client (conn st)) = Some cl"
  shows "Connect ser st =
    (case serialize ser
            (cl\<lparr>Flags := \<lparr>SYN = True, ACK = False, FIN = False\<rparr>, Ack := 0,
                Options := Options_SYN (conn st)\<rparr>) cl None of
       None \<Rightarrow> Inl SerializationFailure
     | Some f1 \<Rightarrow>
    (case serialize ser
            (cl\<lparr>Seq := Seq cl + 1, Flags := \<lparr>SYN = True, ACK = True, FIN = False\<rparr>,
                Ack := Seq cl + 1, Options := Options_SYNACK (conn st)\<rparr>) cl None of
       None \<Rightarrow> Inl SerializationFailure
     | Some f2 \<Rightarrow>
    (case serialize ser
            (cl\<lparr>Seq := Seq cl + 1 + 1, Options := Options_ACK (conn st),
                Flags := \<lparr>SYN = False, ACK = True, FIN = False\<rparr>, Ack := Seq cl + 1 + 1\<rparr>)
            cl None of
       None \<Rightarrow> Inl SerializationFailure
     | Some f3 \<Rightarrow>
         Inr (st\<lparr>conn := (conn st)\<lparr>Packets := Packets (conn st) @ [f1, f2, f3]\<rparr>,
                 peers := (peers st)
                   (Client (conn st) \<mapsto>
                      cl\<lparr>Seq := Seq cl + 1 + 1, Options := Options_ACK (conn st),
                         Flags := \<lparr>SYN = False, ACK = True, FIN = False\<rparr>,
                         Ack := Seq cl + 1 + 1\<rparr>)\<rparr>))))"
  using assms
  by (simp add: Connect_def split: option.splits)

lemma Disconnect_result_same:
  assumes "Client (conn st) = Server (conn st)"
    and "peers st (Client (conn st)) = Some cl"
  shows "Disconnect ser st =
    (case serialize ser
            (cl\<lparr>Flags := \<lparr>SYN = False, ACK = True, FIN = True\<rparr>, Ack := Seq cl\<rparr>) cl None of
       None \<Rightarrow> Inl SerializationFailure
     | Some f1 \<Rightarrow>
    (case serialize ser
            (cl\<lparr>Seq := Seq cl + 1, Flags := \<lparr>SYN = False, ACK = True, FIN = True\<rparr>,
                Ack := Seq cl + 1\<rparr>) cl None of
       None \<Rightarrow> Inl SerializationFailure
     | Some f2 \<Rightarrow>
    (case serialize ser
            (cl\<lparr>Seq := Seq cl + 1 + 1, Flags := \<lparr>SYN = False, ACK = True, FIN = False\<rparr>,
                Ack := Seq cl + 1 + 1\<rparr>) cl None of
       None \<Rightarrow> Inl SerializationFailure
     | Some f3 \<Rightarrow>
         Inr (st\<lparr>conn := (conn st)\<lparr>Packets := Packets (conn st) @ [f1, f2, f3]\<rparr>,
                 peers := (peers st)
                   (Client (conn st) \<mapsto>
                      cl\<lparr>Seq := Seq cl + 1 + 1,
                         Flags := \<lparr>SYN = False, ACK = True, FIN = False\<rparr>,
                         Ack := Seq cl + 1 + 1\<rparr>)\<rparr>))))"
  using assms
  by (simp add: Disconnect_def split: option.splits)

subsection \<open>The three functions: frames and sequence numbers\<close>

lemma unat_Seq_add: "unat (w + of_nat n :: 32 word) = (unat w + n) mod 2 ^ 32"
  by (simp add: unat_word_ariths unat_of_nat mod_add_right_eq)

lemma unat_Seq_Suc: "unat (w + 1 :: 32 word) = (unat w + 1) mod 2 ^ 32"
  using unat_Seq_add [of w 1] by simp

text \<open>
  C2. On a connection whose client and server are two different peers of the store,
  with a serializer that accepts the three frames, \<open>Connect\<close> returns, and it has put
  exactly three frames behind the stored ones: first the frame from the client to the
  server with SYN alone, the client's sequence number and acknowledgment 0; then the
  frame from the server to the client with SYN and ACK; then the frame from the client
  to the server with ACK alone. Afterwards the sequence number of the client and that of
  the server are each one more than before, modulo \<open>2 ^ 32\<close>.
\<close>

theorem Connect_handshake:
  assumes "Client (conn st) \<noteq> Server (conn st)"
    and "peers st (Client (conn st)) = Some cl"
    and "peers st (Server (conn st)) = Some sv"
    and "ser opts (segment cl sv True False False (Seq cl) 0 (Options_SYN (conn st)) None) =
         Some syn"
    and "ser opts (segment sv cl True True False (Seq sv) (Seq cl + 1)
           (Options_SYNACK (conn st)) None) = Some synack"
    and "ser opts (segment cl sv False True False (Seq cl + 1) (Seq sv + 1)
           (Options_ACK (conn st)) None) = Some ack"
  shows "\<exists>st' cl' sv'.
           Connect ser st = Inr st' \<and>
           Packets (conn st') = Packets (conn st) @ [syn, synack, ack] \<and>
           peers st' (Client (conn st')) = Some cl' \<and>
           peers st' (Server (conn st')) = Some sv' \<and>
           Seq cl' = Seq cl + 1 \<and> unat (Seq cl') = (unat (Seq cl) + 1) mod 2 ^ 32 \<and>
           Seq sv' = Seq sv + 1 \<and> unat (Seq sv') = (unat (Seq sv) + 1) mod 2 ^ 32"
  using assms by (simp add: Connect_result serialize_segment unat_Seq_Suc)

theorem Connect_handshake_witness:
  "\<exists>st' cl' sv'.
     Connect demo_serializer demo_state = Inr st' \<and>
     length (Packets (conn st')) = 3 \<and>
     peers st' (Client (conn st')) = Some cl' \<and>
     peers st' (Server (conn st')) = Some sv' \<and>
     Seq cl' = 101 \<and> Seq sv' = 501"
proof -
  have h1: "Client (conn demo_state) \<noteq> Server (conn demo_state)"
    by (simp add: demo_state_def NewConn_def)
  have h2: "peers demo_state (Client (conn demo_state)) = Some demo_client"
    by (simp add: demo_state_def NewConn_def)
  have h3: "peers demo_state (Server (conn demo_state)) = Some demo_server"
    by (simp add: demo_state_def NewConn_def)
  obtain syn where h4: "demo_serializer opts
      (segment demo_client demo_server True False False (Seq demo_client) 0
         (Options_SYN (conn demo_state)) None) = Some syn"
    by (simp add: demo_defs segment_def)
  obtain synack where h5: "demo_serializer opts
      (segment demo_server demo_client True True False (Seq demo_server) (Seq demo_client + 1)
         (Options_SYNACK (conn demo_state)) None) = Some synack"
    by (simp add: demo_defs segment_def)
  obtain ack where h6: "demo_serializer opts
      (segment demo_client demo_server False True False (Seq demo_client + 1)
         (Seq demo_server + 1) (Options_ACK (conn demo_state)) None) = Some ack"
    by (simp add: demo_defs segment_def)
  from Connect_handshake [where ser = demo_serializer and st = demo_state and cl = demo_client
      and sv = demo_server, OF h1 h2 h3 h4 h5 h6] obtain st' cl' sv' where
    "Connect demo_serializer demo_state = Inr st'"
    "Packets (conn st') = Packets (conn demo_state) @ [syn, synack, ack]"
    "peers st' (Client (conn st')) = Some cl'"
    "peers st' (Server (conn st')) = Some sv'"
    "Seq cl' = Seq demo_client + 1" "Seq sv' = Seq demo_server + 1"
    by blast
  then show ?thesis
    by (intro exI [of _ st'] exI [of _ cl'] exI [of _ sv'])
      (simp add: demo_state_def NewConn_def demo_client_def demo_server_def)
qed

text \<open>
  C4. On a connection whose client and server are two different peers of the store,
  with a serializer that accepts the three frames, \<open>Disconnect\<close> returns, and it has put
  exactly three frames behind the stored ones: the frame from the client to the server
  with FIN and ACK, the frame from the server to the client with FIN and ACK, and the
  frame from the client to the server with ACK alone. Afterwards the sequence number of
  the client and that of the server are each one more than before, modulo \<open>2 ^ 32\<close>.
\<close>

theorem Disconnect_teardown:
  assumes "Client (conn st) \<noteq> Server (conn st)"
    and "peers st (Client (conn st)) = Some cl"
    and "peers st (Server (conn st)) = Some sv"
    and "ser opts (segment cl sv False True True (Seq cl) (Seq sv) (Options cl) None) =
         Some fina"
    and "ser opts (segment sv cl False True True (Seq sv) (Seq cl + 1) (Options sv) None) =
         Some finb"
    and "ser opts (segment cl sv False True False (Seq cl + 1) (Seq sv + 1) (Options cl) None) =
         Some ack"
  shows "\<exists>st' cl' sv'.
           Disconnect ser st = Inr st' \<and>
           Packets (conn st') = Packets (conn st) @ [fina, finb, ack] \<and>
           peers st' (Client (conn st')) = Some cl' \<and>
           peers st' (Server (conn st')) = Some sv' \<and>
           Seq cl' = Seq cl + 1 \<and> unat (Seq cl') = (unat (Seq cl) + 1) mod 2 ^ 32 \<and>
           Seq sv' = Seq sv + 1 \<and> unat (Seq sv') = (unat (Seq sv) + 1) mod 2 ^ 32"
  using assms by (simp add: Disconnect_result serialize_segment unat_Seq_Suc)

theorem Disconnect_teardown_witness:
  "\<exists>st' cl' sv'.
     Disconnect demo_serializer demo_state = Inr st' \<and>
     length (Packets (conn st')) = 3 \<and>
     peers st' (Client (conn st')) = Some cl' \<and>
     peers st' (Server (conn st')) = Some sv' \<and>
     Seq cl' = 101 \<and> Seq sv' = 501"
proof -
  have h1: "Client (conn demo_state) \<noteq> Server (conn demo_state)"
    by (simp add: demo_state_def NewConn_def)
  have h2: "peers demo_state (Client (conn demo_state)) = Some demo_client"
    by (simp add: demo_state_def NewConn_def)
  have h3: "peers demo_state (Server (conn demo_state)) = Some demo_server"
    by (simp add: demo_state_def NewConn_def)
  obtain fina where h4: "demo_serializer opts
      (segment demo_client demo_server False True True (Seq demo_client) (Seq demo_server)
         (Options demo_client) None) = Some fina"
    by (simp add: demo_defs segment_def)
  obtain finb where h5: "demo_serializer opts
      (segment demo_server demo_client False True True (Seq demo_server) (Seq demo_client + 1)
         (Options demo_server) None) = Some finb"
    by (simp add: demo_defs segment_def)
  obtain ack where h6: "demo_serializer opts
      (segment demo_client demo_server False True False (Seq demo_client + 1)
         (Seq demo_server + 1) (Options demo_client) None) = Some ack"
    by (simp add: demo_defs segment_def)
  from Disconnect_teardown [where ser = demo_serializer and st = demo_state
      and cl = demo_client and sv = demo_server, OF h1 h2 h3 h4 h5 h6] obtain st' cl' sv' where
    "Disconnect demo_serializer demo_state = Inr st'"
    "Packets (conn st') = Packets (conn demo_state) @ [fina, finb, ack]"
    "peers st' (Client (conn st')) = Some cl'"
    "peers st' (Server (conn st')) = Some sv'"
    "Seq cl' = Seq demo_client + 1" "Seq sv' = Seq demo_server + 1"
    by blast
  then show ?thesis
    by (intro exI [of _ st'] exI [of _ cl'] exI [of _ sv'])
      (simp add: demo_state_def NewConn_def demo_client_def demo_server_def)
qed

text \<open>
  C3. For any two pointers to peers of the store (the same peer twice included) and any
  payload, with a serializer that accepts the two frames, \<open>Send\<close> returns, and it has put
  exactly two frames behind the stored ones: the frame from the sender to the receiver
  with ACK and the payload, then the frame from the receiver to the sender with ACK and
  no payload. Afterwards the sender's sequence number is the old one plus the length of
  the payload, modulo \<open>2 ^ 32\<close>; for a payload of length 0 (nil or empty) it is the
  old one.
\<close>

theorem Send_data_and_ack:
  assumes "peers st sender = Some s"
    and "peers st receiver = Some r"
    and "ser opts (segment s r False True False (Seq s) (Seq r) (Options s) payload) =
         Some dataf"
    and "ser opts (segment r s False True False
           (if receiver = sender then Seq s + of_nat (len payload) else Seq r)
           (Seq s + of_nat (len payload)) (Options r) None) = Some ackf"
  shows "\<exists>st' s'.
           Send ser sender receiver payload st = Inr st' \<and>
           Packets (conn st') = Packets (conn st) @ [dataf, ackf] \<and>
           peers st' sender = Some s' \<and>
           Seq s' = Seq s + of_nat (len payload) \<and>
           unat (Seq s') = (unat (Seq s) + len payload) mod 2 ^ 32 \<and>
           (if len payload = 0 then Seq s' = Seq s else True)"
proof (cases "receiver = sender")
  case True
  with assms show ?thesis
    by (simp add: Send_result_same serialize_segment unat_Seq_add)
next
  case False
  with assms show ?thesis
    by (simp add: Send_result [of sender receiver] serialize_segment unat_Seq_add)
qed

theorem Send_data_and_ack_witness:
  "\<exists>st' s' st'' s''.
     Send demo_serializer 0 1 (Some [97, 98, 99]) demo_state = Inr st' \<and>
     length (Packets (conn st')) = 2 \<and> peers st' 0 = Some s' \<and> Seq s' = 103 \<and>
     Send demo_serializer 0 1 (Some []) demo_state = Inr st'' \<and>
     length (Packets (conn st'')) = 2 \<and> peers st'' 0 = Some s'' \<and> Seq s'' = 100"
proof -
  have h1: "peers demo_state 0 = Some demo_client"
    and h2: "peers demo_state 1 = Some demo_server"
    by (simp_all add: demo_state_def)
  have h3: "\<exists>f. demo_serializer opts
      (segment demo_client demo_server False True False (Seq demo_client) (Seq demo_server)
         (Options demo_client) payload) = Some f" for payload
    by (cases payload) (simp_all add: demo_defs segment_def)
  have h4: "\<exists>f. demo_serializer opts
      (segment demo_server demo_client False True False
         (if (1::nat) = 0 then Seq demo_client + of_nat (len payload) else Seq demo_server)
         (Seq demo_client + of_nat (len payload)) (Options demo_server) None) = Some f"
    for payload
    by (simp add: demo_defs segment_def)
  from h3 [of "Some [97, 98, 99]"] h4 [of "Some [97, 98, 99]"] obtain f1 f2 where
    "demo_serializer opts
      (segment demo_client demo_server False True False (Seq demo_client) (Seq demo_server)
         (Options demo_client) (Some [97, 98, 99])) = Some f1"
    "demo_serializer opts
      (segment demo_server demo_client False True False
         (if (1::nat) = 0 then Seq demo_client + of_nat (len (Some [97, 98, 99]))
          else Seq demo_server)
         (Seq demo_client + of_nat (len (Some [97, 98, 99]))) (Options demo_server) None) =
     Some f2"
    by blast
  from Send_data_and_ack [where ser = demo_serializer and st = demo_state and s = demo_client
      and r = demo_server, OF h1 h2 this] obtain st' s' where a:
    "Send demo_serializer 0 1 (Some [97, 98, 99]) demo_state = Inr st'"
    "Packets (conn st') = Packets (conn demo_state) @ [f1, f2]"
    "peers st' 0 = Some s'"
    "Seq s' = Seq demo_client + of_nat (len (Some [97, 98, 99]))"
    by blast
  from h3 [of "Some []"] h4 [of "Some []"] obtain g1 g2 where
    "demo_serializer opts
      (segment demo_client demo_server False True False (Seq demo_client) (Seq demo_server)
         (Options demo_client) (Some [])) = Some g1"
    "demo_serializer opts
      (segment demo_server demo_client False True False
         (if (1::nat) = 0 then Seq demo_client + of_nat (len (Some [])) else Seq demo_server)
         (Seq demo_client + of_nat (len (Some []))) (Options demo_server) None) = Some g2"
    by blast
  from Send_data_and_ack [where ser = demo_serializer and st = demo_state and s = demo_client
      and r = demo_server, OF h1 h2 this] obtain st'' s'' where b:
    "Send demo_serializer 0 1 (Some []) demo_state = Inr st''"
    "Packets (conn st'') = Packets (conn demo_state) @ [g1, g2]"
    "peers st'' 0 = Some s''"
    "Seq s'' = Seq demo_client + of_nat (len (Some []))"
    by blast
  from a b show ?thesis
    by (intro exI [of _ st'] exI [of _ s'] exI [of _ st''] exI [of _ s''])
      (simp add: demo_state_def NewConn_def demo_client_def len_def)
qed

subsection \<open>NewPeer and malformed addresses\<close>

lemma NewPeer_malformed_MAC:
  "ParseMAC mac = None \<Longrightarrow> NewPeer ParseMAC ParseIP mac ip port isn = Inl InvalidAddress"
  by (simp add: NewPeer_def)

text \<open>
  C1. \<open>NewPeer\<close> stops with \<open>InvalidAddress\<close> when \<open>net.ParseMAC\<close> rejects the hardware
  address (lemma \<open>NewPeer_malformed_MAC\<close>). It does not look at the result of
  \<open>net.ParseIP\<close>: when the hardware address parses and \<open>net.ParseIP\<close> rejects the IP
  address string (it returns nil), \<open>NewPeer\<close> returns a \<open>Peer\<close>, whose \<open>IP\<close> field is
  nil.
\<close>

theorem NewPeer_malformed_IP:
  "ParseMAC mac = Some m \<Longrightarrow> ParseIP ip = None \<Longrightarrow>
   NewPeer ParseMAC ParseIP mac ip port isn =
     Inr \<lparr>MAC = m, IP = None, Port = port, Seq = isn, Ack = 0,
          Flags = \<lparr>SYN = False, ACK = False, FIN = False\<rparr>, Options = None\<rparr>"
  by (simp add: NewPeer_def)

theorem NewPeer_malformed_IP_witness:
  "demo_ParseMAC ''02:00:00:00:00:01'' = Some [2, 0, 0, 0, 0, 1] \<and>
   demo_ParseIP ''not-an-ip'' = None \<and>
   NewPeer demo_ParseMAC demo_ParseIP ''02:00:00:00:00:01'' ''not-an-ip'' 80 100 =
     (Inr \<lparr>MAC = [2, 0, 0, 0, 0, 1], IP = None, Port = 80, Seq = 100, Ack = 0,
           Flags = \<lparr>SYN = False, ACK = False, FIN = False\<rparr>, Options = None\<rparr>
      :: error + byte Peer)"
proof -
  have mac: "demo_ParseMAC ''02:00:00:00:00:01'' = Some [2, 0, 0, 0, 0, 1]"
    by (simp add: demo_ParseMAC_def)
  have ip: "demo_ParseIP ''not-an-ip'' = None"
    by (simp add: demo_ParseIP_def)
  from mac ip NewPeer_malformed_IP [where ParseMAC = demo_ParseMAC and ParseIP = demo_ParseIP
      and mac = "''02:00:00:00:00:01''" and ip = "''not-an-ip''" and m = "[2, 0, 0, 0, 0, 1]"
      and port = 80 and isn = 100]
  show ?thesis
    by simp
qed

lemma accepts_segment:
  assumes "accepts ser a b"
  shows "\<exists>f. ser opts (segment a b syn ack fin seqno ackno os payload) = Some f"
proof -
  let ?s = "a\<lparr>Flags := \<lparr>SYN = syn, ACK = ack, FIN = fin\<rparr>, Seq := seqno, Ack := ackno,
              Options := os\<rparr>"
  from assms have "serialize ser ?s b payload \<noteq> None"
    by (simp add: accepts_def)
  then show ?thesis
    by (simp add: serialize_segment)
qed

subsection \<open>A scripted connection\<close>

lemma accepts_not_None:
  "accepts ser a b \<Longrightarrow> ser opts (segment a b syn ack fin seqno ackno os payload) \<noteq> None"
  using accepts_segment [of ser a b syn ack fin seqno ackno os payload] by auto

lemma accepts_demo:
  "accepts demo_serializer demo_client demo_server"
  "accepts demo_serializer demo_server demo_client"
  by (auto simp: accepts_def demo_defs split: option.splits)

lemma scripted_run:
  assumes fresh: "Seq cl = 100" "Options cl = None" "Seq sv = 500" "Options sv = None"
    and ser: "accepts ser cl sv" "accepts ser sv cl"
    and st: "a \<noteq> b" "conn st = NewConn a b" "peers st a = Some cl" "peers st b = Some sv"
  shows "\<exists>st'. script ser [CallConnect, CallSend a b (Some [97, 98, 99]), CallDisconnect] st = Inr st' \<and>
    map Some (Packets (conn st')) =
      [ser opts (segment cl sv True False False 100 0 None None),
       ser opts (segment sv cl True True False 500 101 None None),
       ser opts (segment cl sv False True False 101 501 None None),
       ser opts (segment cl sv False True False 101 501 None (Some [97, 98, 99])),
       ser opts (segment sv cl False True False 501 104 None None),
       ser opts (segment cl sv False True True 104 501 None None),
       ser opts (segment sv cl False True True 501 105 None None),
       ser opts (segment cl sv False True False 105 502 None None)]"
  using st fresh
  by (simp add: Connect_result [of _ cl sv] Send_result Disconnect_result NewConn_def
      serialize_segment option.case_eq_if accepts_not_None [OF ser(1)]
      accepts_not_None [OF ser(2)] len_def)

lemma NewPeer_fresh:
  assumes "NewPeer ParseMAC ParseIP mac ip port isn = Inr x"
  shows "Seq x = isn \<and> Ack x = 0 \<and> Options x = None \<and>
         Flags x = \<lparr>SYN = False, ACK = False, FIN = False\<rparr> \<and> Port x = port \<and>
         IP x = ParseIP ip \<and> ParseMAC mac = Some (MAC x)"
  using assms by (auto simp: NewPeer_def split: option.splits)

text \<open>
  C9. Take a client made by \<open>NewPeer\<close> with initial sequence number 100, a server made
  with 500, a connection made by \<open>NewConn\<close> from pointers to them, and a serializer that
  accepts the frames between the two. \<open>Connect\<close>, then \<open>Send\<close> of the payload "abc" (the
  bytes 97, 98, 99) from the client to the server, then \<open>Disconnect\<close> return, and the
  packet store holds the serializations of exactly these eight frames, in this order,
  with these flags, sequence and acknowledgment numbers. A second run, from any other
  state that holds the same two peers (at other addresses, in another store), gives the
  same packet store.
\<close>

theorem scripted_run_deterministic:
  assumes "NewPeer ParseMAC ParseIP cmac cip cport 100 = Inr cl"
    and "NewPeer ParseMAC ParseIP smac sip sport 500 = Inr sv"
    and "accepts ser cl sv" and "accepts ser sv cl"
    and "a \<noteq> b" and "conn sta = NewConn a b"
    and "peers sta a = Some cl" and "peers sta b = Some sv"
    and "c \<noteq> d" and "conn stb = NewConn c d"
    and "peers stb c = Some cl" and "peers stb d = Some sv"
  shows "\<exists>sta' stb'.
    script ser [CallConnect, CallSend a b (Some [97, 98, 99]), CallDisconnect] sta = Inr sta' \<and>
    script ser [CallConnect, CallSend c d (Some [97, 98, 99]), CallDisconnect] stb = Inr stb' \<and>
    Packets (conn sta') = Packets (conn stb') \<and>
    map Some (Packets (conn sta')) =
      [ser opts (segment cl sv True False False 100 0 None None),
       ser opts (segment sv cl True True False 500 101 None None),
       ser opts (segment cl sv False True False 101 501 None None),
       ser opts (segment cl sv False True False 101 501 None (Some [97, 98, 99])),
       ser opts (segment sv cl False True False 501 104 None None),
       ser opts (segment cl sv False True True 104 501 None None),
       ser opts (segment sv cl False True True 501 105 None None),
       ser opts (segment cl sv False True False 105 502 None None)]"
proof -
  let ?frames =
     "[ser opts (segment cl sv True False False 100 0 None None),
       ser opts (segment sv cl True True False 500 101 None None),
       ser opts (segment cl sv False True False 101 501 None None),
       ser opts (segment cl sv False True False 101 501 None (Some [97, 98, 99])),
       ser opts (segment sv cl False True False 501 104 None None),
       ser opts (segment cl sv False True True 104 501 None None),
       ser opts (segment sv cl False True True 501 105 None None),
       ser opts (segment cl sv False True False 105 502 None None)]"
  from NewPeer_fresh [OF assms(1)] NewPeer_fresh [OF assms(2)]
  have fresh: "Seq cl = 100" "Options cl = None" "Seq sv = 500" "Options sv = None"
    by simp_all
  from scripted_run [OF fresh assms(3,4) assms(5-8)] obtain sta' where
    a: "script ser [CallConnect, CallSend a b (Some [97, 98, 99]), CallDisconnect] sta = Inr sta'"
    and fa: "map Some (Packets (conn sta')) = ?frames"
    by - (elim exE conjE, rule that)
  from scripted_run [OF fresh assms(3,4) assms(9-12)] obtain stb' where
    b: "script ser [CallConnect, CallSend c d (Some [97, 98, 99]), CallDisconnect] stb = Inr stb'"
    and fb: "map Some (Packets (conn stb')) = ?frames"
    by - (elim exE conjE, rule that)
  from fa fb have "map Some (Packets (conn sta')) = map Some (Packets (conn stb'))"
    by (rule trans [OF _ sym])
  then have same: "Packets (conn sta') = Packets (conn stb')"
    by (simp add: inj_map_eq_map)
  show ?thesis
    by (intro exI [of _ sta'] exI [of _ stb'] conjI a b same fa)
qed

theorem scripted_run_deterministic_witness:
  "\<exists>sta' stb'.
     script demo_serializer [CallConnect, CallSend 0 1 (Some [97, 98, 99]), CallDisconnect]
       demo_state = Inr sta' \<and>
     script demo_serializer [CallConnect, CallSend 5 3 (Some [97, 98, 99]), CallDisconnect]
       \<lparr>conn = NewConn 5 3, peers = [3 \<mapsto> demo_server, 5 \<mapsto> demo_client, 7 \<mapsto> demo_client]\<rparr> =
       Inr stb' \<and>
     Packets (conn sta') = Packets (conn stb') \<and> length (Packets (conn sta')) = 8"
proof -
  let ?stb = "\<lparr>conn = NewConn 5 3,
               peers = [3 \<mapsto> demo_server, 5 \<mapsto> demo_client, 7 \<mapsto> demo_client]\<rparr> :: byte state"
  have cl: "NewPeer demo_ParseMAC demo_ParseIP ''02:00:00:00:00:01'' ''10.0.0.1'' 49152 100 =
      Inr demo_client"
    by (simp add: NewPeer_def demo_ParseMAC_def demo_ParseIP_def demo_client_def)
  have sv: "NewPeer demo_ParseMAC demo_ParseIP ''02:00:00:00:00:02'' ''10.0.0.2'' 80 500 =
      Inr demo_server"
    by (simp add: NewPeer_def demo_ParseMAC_def demo_ParseIP_def demo_server_def)
  have sta: "(0::nat) \<noteq> 1" "conn demo_state = NewConn 0 1"
    "peers demo_state 0 = Some demo_client" "peers demo_state 1 = Some demo_server"
    by (simp_all add: demo_state_def)
  have stb: "(5::nat) \<noteq> 3" "conn ?stb = NewConn 5 3"
    "peers ?stb 5 = Some demo_client" "peers ?stb 3 = Some demo_server"
    by simp_all
  from scripted_run_deterministic [where ser = demo_serializer, OF cl sv accepts_demo sta stb]
  obtain sta' stb' where
    r: "script demo_serializer [CallConnect, CallSend 0 1 (Some [97, 98, 99]), CallDisconnect]
       demo_state = Inr sta'"
    "script demo_serializer [CallConnect, CallSend 5 3 (Some [97, 98, 99]), CallDisconnect]
       ?stb = Inr stb'"
    "Packets (conn sta') = Packets (conn stb')"
    and m: "map Some (Packets (conn sta')) =
      [demo_serializer opts (segment demo_client demo_server True False False 100 0 None None),
       demo_serializer opts (segment demo_server demo_client True True False 500 101 None None),
       demo_serializer opts (segment demo_client demo_server False True False 101 501 None None),
       demo_serializer opts
         (segment demo_client demo_server False True False 101 501 None (Some [97, 98, 99])),
       demo_serializer opts (segment demo_server demo_client False True False 501 104 None None),
       demo_serializer opts (segment demo_client demo_server False True True 104 501 None None),
       demo_serializer opts (segment demo_server demo_client False True True 501 105 None None),
       demo_serializer opts (segment demo_client demo_server False True False 105 502 None None)]"
    by - (elim exE conjE, rule that)
  from arg_cong [OF m, where f = length] have len: "length (Packets (conn sta')) = 8"
    by simp
  show ?thesis
    by (intro exI [of _ sta'] exI [of _ stb'] conjI r len)
qed

subsection \<open>No phase is checked\<close>

text \<open>
  C10. Whatever the flags, the numbers, the options and the stored frames are before
  the call (nothing is assumed about them), on a connection between two different
  peers whose frames the serializer accepts: \<open>Connect\<close> returns with three more frames,
  both sequence numbers one higher, and the flags and acknowledgment numbers of both
  peers overwritten; a second \<open>Connect\<close> right after it returns again, with three more
  frames and both sequence numbers one higher again. \<open>Send\<close> from the client to the
  server returns from the same arbitrary state (so also before any \<open>Connect\<close>) with two
  more frames, and \<open>Disconnect\<close> with three more, each with the flags and acknowledgment
  numbers overwritten and the sequence numbers advanced.
\<close>

theorem lifecycle_unconditional:
  assumes "Client (conn st) \<noteq> Server (conn st)"
    and "peers st (Client (conn st)) = Some cl"
    and "peers st (Server (conn st)) = Some sv"
    and "accepts ser cl sv" and "accepts ser sv cl"
  shows
    "(\<exists>st' cl' sv'.
        Connect ser st = Inr st' \<and>
        length (Packets (conn st')) = length (Packets (conn st)) + 3 \<and>
        peers st' (Client (conn st)) = Some cl' \<and> peers st' (Server (conn st)) = Some sv' \<and>
        Flags cl' = \<lparr>SYN = False, ACK = True, FIN = False\<rparr> \<and>
        Ack cl' = Seq sv + 1 \<and> Seq cl' = Seq cl + 1 \<and>
        Flags sv' = \<lparr>SYN = True, ACK = True, FIN = False\<rparr> \<and>
        Ack sv' = Seq cl + 1 \<and> Seq sv' = Seq sv + 1 \<and>
        (\<exists>st'' cl'' sv''.
           Connect ser st' = Inr st'' \<and>
           length (Packets (conn st'')) = length (Packets (conn st)) + 6 \<and>
           peers st'' (Client (conn st)) = Some cl'' \<and>
           peers st'' (Server (conn st)) = Some sv'' \<and>
           Flags cl'' = \<lparr>SYN = False, ACK = True, FIN = False\<rparr> \<and>
           Ack cl'' = Seq sv + 2 \<and> Seq cl'' = Seq cl + 2 \<and>
           Flags sv'' = \<lparr>SYN = True, ACK = True, FIN = False\<rparr> \<and>
           Ack sv'' = Seq cl + 2 \<and> Seq sv'' = Seq sv + 2)) \<and>
     (\<exists>st' cl' sv'.
        Send ser (Client (conn st)) (Server (conn st)) payload st = Inr st' \<and>
        length (Packets (conn st')) = length (Packets (conn st)) + 2 \<and>
        peers st' (Client (conn st)) = Some cl' \<and> peers st' (Server (conn st)) = Some sv' \<and>
        Flags cl' = \<lparr>SYN = False, ACK = True, FIN = False\<rparr> \<and>
        Ack cl' = Seq sv \<and> Seq cl' = Seq cl + of_nat (len payload) \<and>
        Flags sv' = \<lparr>SYN = False, ACK = True, FIN = False\<rparr> \<and>
        Ack sv' = Seq cl + of_nat (len payload) \<and> Seq sv' = Seq sv) \<and>
     (\<exists>st' cl' sv'.
        Disconnect ser st = Inr st' \<and>
        length (Packets (conn st')) = length (Packets (conn st)) + 3 \<and>
        peers st' (Client (conn st)) = Some cl' \<and> peers st' (Server (conn st)) = Some sv' \<and>
        Flags cl' = \<lparr>SYN = False, ACK = True, FIN = False\<rparr> \<and>
        Ack cl' = Seq sv + 1 \<and> Seq cl' = Seq cl + 1 \<and>
        Flags sv' = \<lparr>SYN = False, ACK = True, FIN = True\<rparr> \<and>
        Ack sv' = Seq cl + 1 \<and> Seq sv' = Seq sv + 1)"
proof (intro conjI)
  note rules = serialize_segment option.case_eq_if accepts_not_None [OF assms(4)]
    accepts_not_None [OF assms(5)]
  show "\<exists>st' cl' sv'.
        Connect ser st = Inr st' \<and>
        length (Packets (conn st')) = length (Packets (conn st)) + 3 \<and>
        peers st' (Client (conn st)) = Some cl' \<and> peers st' (Server (conn st)) = Some sv' \<and>
        Flags cl' = \<lparr>SYN = False, ACK = True, FIN = False\<rparr> \<and>
        Ack cl' = Seq sv + 1 \<and> Seq cl' = Seq cl + 1 \<and>
        Flags sv' = \<lparr>SYN = True, ACK = True, FIN = False\<rparr> \<and>
        Ack sv' = Seq cl + 1 \<and> Seq sv' = Seq sv + 1 \<and>
        (\<exists>st'' cl'' sv''.
           Connect ser st' = Inr st'' \<and>
           length (Packets (conn st'')) = length (Packets (conn st)) + 6 \<and>
           peers st'' (Client (conn st)) = Some cl'' \<and>
           peers st'' (Server (conn st)) = Some sv'' \<and>
           Flags cl'' = \<lparr>SYN = False, ACK = True, FIN = False\<rparr> \<and>
           Ack cl'' = Seq sv + 2 \<and> Seq cl'' = Seq cl + 2 \<and>
           Flags sv'' = \<lparr>SYN = True, ACK = True, FIN = False\<rparr> \<and>
           Ack sv'' = Seq cl + 2 \<and> Seq sv'' = Seq sv + 2)"
    using assms(1-3) by (simp add: Connect_result rules)
  show "\<exists>st' cl' sv'.
        Send ser (Client (conn st)) (Server (conn st)) payload st = Inr st' \<and>
        length (Packets (conn st')) = length (Packets (conn st)) + 2 \<and>
        peers st' (Client (conn st)) = Some cl' \<and> peers st' (Server (conn st)) = Some sv' \<and>
        Flags cl' = \<lparr>SYN = False, ACK = True, FIN = False\<rparr> \<and>
        Ack cl' = Seq sv \<and> Seq cl' = Seq cl + of_nat (len payload) \<and>
        Flags sv' = \<lparr>SYN = False, ACK = True, FIN = False\<rparr> \<and>
        Ack sv' = Seq cl + of_nat (len payload) \<and> Seq sv' = Seq sv"
    using assms(1-3) by (simp add: Send_result rules)
  show "\<exists>st' cl' sv'.
        Disconnect ser st = Inr st' \<and>
        length (Packets (conn st')) = length (Packets (conn st)) + 3 \<and>
        peers st' (Client (conn st)) = Some cl' \<and> peers st' (Server (conn st)) = Some sv' \<and>
        Flags cl' = \<lparr>SYN = False, ACK = True, FIN = False\<rparr> \<and>
        Ack cl' = Seq sv + 1 \<and> Seq cl' = Seq cl + 1 \<and>
        Flags sv' = \<lparr>SYN = False, ACK = True, FIN = True\<rparr> \<and>
        Ack sv' = Seq cl + 1 \<and> Seq sv' = Seq sv + 1"
    using assms(1-3) by (simp add: Disconnect_result rules)
qed

theorem lifecycle_unconditional_witness:
  "Client (conn demo_state) \<noteq> Server (conn demo_state) \<and>
   peers demo_state (Client (conn demo_state)) = Some demo_client \<and>
   peers demo_state (Server (conn demo_state)) = Some demo_server \<and>
   accepts demo_serializer demo_client demo_server \<and>
   accepts demo_serializer demo_server demo_client \<and>
   (\<exists>st' st''.
      Connect demo_serializer demo_state = Inr st' \<and> Connect demo_serializer st' = Inr st'' \<and>
      length (Packets (conn st'')) = 6) \<and>
   (\<exists>st'. Send demo_serializer 0 1 (Some [97, 98, 99]) demo_state = Inr st' \<and>
      length (Packets (conn st')) = 2) \<and>
   (\<exists>st'. Disconnect demo_serializer demo_state = Inr st' \<and> length (Packets (conn st')) = 3)"
proof -
  have h1: "Client (conn demo_state) \<noteq> Server (conn demo_state)"
    by (simp add: demo_state_def NewConn_def)
  have h2: "peers demo_state (Client (conn demo_state)) = Some demo_client"
    by (simp add: demo_state_def NewConn_def)
  have h3: "peers demo_state (Server (conn demo_state)) = Some demo_server"
    by (simp add: demo_state_def NewConn_def)
  have c: "Client (conn demo_state) = 0" "Server (conn demo_state) = 1"
    "Packets (conn demo_state) = []"
    by (simp_all add: demo_state_def NewConn_def)
  note inst = lifecycle_unconditional [where ser = demo_serializer and st = demo_state
      and cl = demo_client and sv = demo_server and payload = "Some [97, 98, 99]",
      OF h1 h2 h3 accepts_demo]
  from inst [THEN conjunct1] have twice: "\<exists>st' st''.
      Connect demo_serializer demo_state = Inr st' \<and> Connect demo_serializer st' = Inr st'' \<and>
      length (Packets (conn st'')) = 6"
    unfolding c by - (elim exE conjE, intro exI conjI, assumption, assumption, simp)
  from inst [THEN conjunct2, THEN conjunct1]
  have send: "\<exists>st'. Send demo_serializer 0 1 (Some [97, 98, 99]) demo_state = Inr st' \<and>
      length (Packets (conn st')) = 2"
    unfolding c by - (elim exE conjE, intro exI conjI, assumption, simp)
  from inst [THEN conjunct2, THEN conjunct2]
  have disc: "\<exists>st'. Disconnect demo_serializer demo_state = Inr st' \<and>
      length (Packets (conn st')) = 3"
    unfolding c by - (elim exE conjE, intro exI conjI, assumption, simp)
  show ?thesis
    by (intro conjI h1 h2 h3 accepts_demo twice send disc)
qed

subsection \<open>The acknowledgment field of every frame\<close>

text \<open>On a store that holds both peers, \<open>current_ack_builder\<close> stores the frame with the
  receiver's sequence number of this moment in the acknowledgment field.\<close>

lemma current_ack_builder_None [simp]:
  "peers st p = None \<Longrightarrow> current_ack_builder ser p q payload st = Inl NilDereference"
  "peers st q = None \<Longrightarrow> current_ack_builder ser p q payload st = Inl NilDereference"
  by (auto simp: current_ack_builder_def split: option.splits)

lemma current_ack_builder_Some [simp]:
  "peers st p = Some s \<Longrightarrow> peers st q = Some r \<Longrightarrow>
   current_ack_builder ser p q payload st =
     (case ser opts
             (segment s r (SYN (Flags s)) (ACK (Flags s)) (FIN (Flags s)) (Seq s)
                (if ACK (Flags s) then Seq r else Ack s) (Options s) payload) of
        None \<Rightarrow> Inl SerializationFailure
      | Some f \<Rightarrow> Inr (st\<lparr>conn := (conn st)\<lparr>Packets := Packets (conn st) @ [f]\<rparr>\<rparr>))"
  by (simp add: current_ack_builder_def)

lemma Connect_current_ack: "Connect ser st = Connect_with (current_ack_builder ser) st"
proof (cases "peers st (Client (conn st))")
  case None
  then show ?thesis by (simp add: Connect_with_def Connect_def)
next
  case (Some cl)
  note cl = this
  show ?thesis
  proof (cases "peers st (Server (conn st))")
    case None
    with cl have "Client (conn st) \<noteq> Server (conn st)" by auto
    with cl None show ?thesis by (simp add: Connect_with_def Connect_def)
  next
    case (Some sv)
    with cl show ?thesis
      by (cases "Client (conn st) = Server (conn st)")
        (simp_all add: Connect_with_def Connect_def serialize_segment split: option.splits)
  qed
qed

lemma Disconnect_current_ack: "Disconnect ser st = Disconnect_with (current_ack_builder ser) st"
proof (cases "peers st (Client (conn st))")
  case None
  then show ?thesis by (simp add: Disconnect_with_def Disconnect_def)
next
  case (Some cl)
  note cl = this
  show ?thesis
  proof (cases "peers st (Server (conn st))")
    case None
    with cl have "Client (conn st) \<noteq> Server (conn st)" by auto
    with cl None show ?thesis by (simp add: Disconnect_with_def Disconnect_def)
  next
    case (Some sv)
    with cl show ?thesis
      by (cases "Client (conn st) = Server (conn st)")
        (simp_all add: Disconnect_with_def Disconnect_def serialize_segment split: option.splits)
  qed
qed

lemma Send_current_ack:
  "Send ser p q payload st = Send_with (current_ack_builder ser) p q payload st"
proof (cases "peers st p")
  case None
  then show ?thesis by (simp add: Send_with_def Send_def)
next
  case (Some s)
  note s = this
  show ?thesis
  proof (cases "peers st q")
    case None
    with s have "p \<noteq> q" by auto
    with s None show ?thesis by (simp add: Send_with_def Send_def)
  next
    case (Some r)
    with s show ?thesis
      by (cases "p = q")
        (simp_all add: Send_with_def Send_def serialize_segment split: option.splits)
  qed
qed

text \<open>
  C5. Every frame that \<open>Connect\<close>, \<open>Send\<close> and \<open>Disconnect\<close> store with the ACK flag
  set has, in the acknowledgment field of its TCP header, the sequence number that the
  receiver of the frame holds at the moment the frame is built, so the value after the
  receiver's latest increment and never an earlier one: from every state, with any
  serializer, the three functions return what they return when each call of
  \<open>createPacket\<close> is replaced by the builder that writes the receiver's current
  sequence number into the acknowledgment field of each frame with the ACK flag, and
  stores the serialization of that header. This covers the stored frames, the fields of
  the peers afterwards, and the calls that stop on a nil pointer or in the serializer.
\<close>

theorem acknowledgments_current:
  "Connect ser st = Connect_with (current_ack_builder ser) st \<and>
   Send ser sender receiver payload st =
     Send_with (current_ack_builder ser) sender receiver payload st \<and>
   Disconnect ser st = Disconnect_with (current_ack_builder ser) st"
  by (intro conjI Connect_current_ack Send_current_ack Disconnect_current_ack)

theorem acknowledgments_current_witness:
  "Connect demo_serializer demo_state =
     Connect_with (current_ack_builder demo_serializer) demo_state \<and>
   packets_of (Connect demo_serializer demo_state) =
     [[0, 1, 0, 0] @ be32 100 @ be32 0 @ [2, 0, 0, 0, 0, 2, 2, 0, 0, 0, 0, 1, 10, 0, 0, 1, 10, 0, 0, 2],
      [0, 1, 1, 0] @ be32 500 @ be32 101 @ [2, 0, 0, 0, 0, 1, 2, 0, 0, 0, 0, 2, 10, 0, 0, 2, 10, 0, 0, 1],
      [0, 0, 1, 0] @ be32 101 @ be32 501 @ [2, 0, 0, 0, 0, 2, 2, 0, 0, 0, 0, 1, 10, 0, 0, 1, 10, 0, 0, 2]] \<and>
   Send demo_serializer 0 1 (Some [97, 98, 99]) demo_state =
     Send_with (current_ack_builder demo_serializer) 0 1 (Some [97, 98, 99]) demo_state \<and>
   packets_of (Send demo_serializer 0 1 (Some [97, 98, 99]) demo_state) =
     [[0, 0, 1, 0] @ be32 100 @ be32 500 @
        [2, 0, 0, 0, 0, 2, 2, 0, 0, 0, 0, 1, 10, 0, 0, 1, 10, 0, 0, 2, 97, 98, 99],
      [0, 0, 1, 0] @ be32 500 @ be32 103 @ [2, 0, 0, 0, 0, 1, 2, 0, 0, 0, 0, 2, 10, 0, 0, 2, 10, 0, 0, 1]] \<and>
   Disconnect demo_serializer demo_state =
     Disconnect_with (current_ack_builder demo_serializer) demo_state \<and>
   packets_of (Disconnect demo_serializer demo_state) =
     [[0, 0, 1, 1] @ be32 100 @ be32 500 @ [2, 0, 0, 0, 0, 2, 2, 0, 0, 0, 0, 1, 10, 0, 0, 1, 10, 0, 0, 2],
      [0, 0, 1, 1] @ be32 500 @ be32 101 @ [2, 0, 0, 0, 0, 1, 2, 0, 0, 0, 0, 2, 10, 0, 0, 2, 10, 0, 0, 1],
      [0, 0, 1, 0] @ be32 101 @ be32 501 @ [2, 0, 0, 0, 0, 2, 2, 0, 0, 0, 0, 1, 10, 0, 0, 1, 10, 0, 0, 2]]"
proof -
  have c: "packets_of (Connect_with (current_ack_builder demo_serializer) demo_state) =
     [[0, 1, 0, 0] @ be32 100 @ be32 0 @ [2, 0, 0, 0, 0, 2, 2, 0, 0, 0, 0, 1, 10, 0, 0, 1, 10, 0, 0, 2],
      [0, 1, 1, 0] @ be32 500 @ be32 101 @ [2, 0, 0, 0, 0, 1, 2, 0, 0, 0, 0, 2, 10, 0, 0, 2, 10, 0, 0, 1],
      [0, 0, 1, 0] @ be32 101 @ be32 501 @ [2, 0, 0, 0, 0, 2, 2, 0, 0, 0, 0, 1, 10, 0, 0, 1, 10, 0, 0, 2]]"
    by (simp add: packets_of_def Connect_with_def demo_defs segment_def Let_def)
  have s: "packets_of (Send_with (current_ack_builder demo_serializer) 0 1 (Some [97, 98, 99])
      demo_state) =
     [[0, 0, 1, 0] @ be32 100 @ be32 500 @
        [2, 0, 0, 0, 0, 2, 2, 0, 0, 0, 0, 1, 10, 0, 0, 1, 10, 0, 0, 2, 97, 98, 99],
      [0, 0, 1, 0] @ be32 500 @ be32 103 @ [2, 0, 0, 0, 0, 1, 2, 0, 0, 0, 0, 2, 10, 0, 0, 2, 10, 0, 0, 1]]"
    by (simp add: packets_of_def Send_with_def len_def demo_defs segment_def Let_def)
  have d: "packets_of (Disconnect_with (current_ack_builder demo_serializer) demo_state) =
     [[0, 0, 1, 1] @ be32 100 @ be32 500 @ [2, 0, 0, 0, 0, 2, 2, 0, 0, 0, 0, 1, 10, 0, 0, 1, 10, 0, 0, 2],
      [0, 0, 1, 1] @ be32 500 @ be32 101 @ [2, 0, 0, 0, 0, 1, 2, 0, 0, 0, 0, 2, 10, 0, 0, 2, 10, 0, 0, 1],
      [0, 0, 1, 0] @ be32 101 @ be32 501 @ [2, 0, 0, 0, 0, 2, 2, 0, 0, 0, 0, 1, 10, 0, 0, 1, 10, 0, 0, 2]]"
    by (simp add: packets_of_def Disconnect_with_def demo_defs segment_def Let_def)
  note inst = acknowledgments_current [where ser = demo_serializer and st = demo_state
      and sender = 0 and receiver = 1 and payload = "Some [97, 98, 99]"]
  from inst c s d show ?thesis
    by (simp only: simp_thms)
qed

subsection \<open>Which option list a frame carries\<close>

lemma carries_serialize:
  assumes "serialize ser s r payload = Some f"
  shows "carries ser (Options s) f"
proof -
  let ?tcp = "\<lparr>SrcPort = Port s, DstPort = Port r, TCP_SYN = SYN (Flags s),
      TCP_ACK = ACK (Flags s), TCP_FIN = FIN (Flags s), TCP_Seq = Seq s, TCP_Ack = Ack s,
      Window = 64000, TCP_Options = Options s\<rparr>"
  from assms have "TCP_Options ?tcp = Options s \<and>
      ser opts
        (LEthernet \<lparr>SrcMAC = MAC s, DstMAC = MAC r, EthernetType = EthernetTypeIPv4\<rparr> #
         LIPv4 \<lparr>Version = 4, IPv4_Flags = IPv4DontFragment, Id = 1, TTL = 64,
                Protocol = IPProtocolTCP, SrcIP = IP s, DstIP = IP r\<rparr> #
         LTCP ?tcp # (case payload of None \<Rightarrow> [] | Some pl \<Rightarrow> [LPayload pl])) = Some f"
    by (simp add: serialize_segment segment_def)
  then show ?thesis
    unfolding carries_def by blast
qed

lemma Connect_needs_peers:
  assumes "Connect ser st = Inr st'"
  obtains cl sv where "peers st (Client (conn st)) = Some cl"
    and "peers st (Server (conn st)) = Some sv"
proof (cases "peers st (Client (conn st))")
  case None
  with assms show ?thesis by (simp add: Connect_def)
next
  case (Some cl)
  note cl = this
  show ?thesis
  proof (cases "peers st (Server (conn st))")
    case None
    with cl have "Client (conn st) \<noteq> Server (conn st)" by auto
    with assms cl None show ?thesis by (simp add: Connect_def)
  next
    case (Some sv)
    with cl that show ?thesis by blast
  qed
qed

text \<open>The option lists of the three frames of \<open>Connect\<close>, and of both peers afterwards.\<close>

lemma Connect_options:
  assumes run: "Connect ser st = Inr st'"
  shows "\<exists>f1 f2 f3.
    Packets (conn st') = Packets (conn st) @ [f1, f2, f3] \<and>
    Client (conn st') = Client (conn st) \<and> Server (conn st') = Server (conn st) \<and>
    carries ser (Options_SYN (conn st)) f1 \<and>
    carries ser (Options_SYNACK (conn st)) f2 \<and>
    carries ser (Options_ACK (conn st)) f3 \<and>
    both_hold st' (Options_ACK (conn st))"
proof -
  from run obtain cl sv where cl: "peers st (Client (conn st)) = Some cl"
    and sv: "peers st (Server (conn st)) = Some sv"
    by (rule Connect_needs_peers)
  show ?thesis
  proof (cases "Client (conn st) = Server (conn st)")
    case True
    from run show ?thesis
      unfolding Connect_result_same [OF True cl]
      by (auto split: option.splits simp: both_hold_def True [symmetric]
          dest!: carries_serialize)
  next
    case False
    from run show ?thesis
      unfolding Connect_result [OF False cl sv]
      by (auto split: option.splits simp: both_hold_def False dest!: carries_serialize)
  qed
qed

subsection \<open>Frames after the handshake\<close>

lemma sent_with_serialize:
  assumes "serialize ser s r payload = Some f"
  shows "sent_with ser s (Options s) f"
  using assms unfolding sent_with_def serialize_segment by blast

lemma sent_with_same_peer:
  assumes "same_peer x y" and "sent_with ser y (Options y) f"
  shows "sent_with ser x (Options x) f"
proof -
  from assms(1) have "segment y r = segment x r" for r
    by (intro segment_cong) (simp_all add: same_peer_def)
  with assms show ?thesis
    by (simp add: sent_with_def same_peer_def)
qed

lemma sent_with_upd [simp]:
  "sent_with ser (s\<lparr>Seq := a\<rparr>) = sent_with ser s"
  "sent_with ser (s\<lparr>Ack := a\<rparr>) = sent_with ser s"
  "sent_with ser (s\<lparr>Flags := fl\<rparr>) = sent_with ser s"
  by (simp_all add: sent_with_def fun_eq_iff)

lemma sent_with_carries: "sent_with ser s os f \<Longrightarrow> carries ser os f"
  unfolding sent_with_def carries_def segment_def by force

lemma same_peer_refl [simp]: "rel_option same_peer x x"
  by (cases x) (simp_all add: same_peer_def)

lemma same_peer_upd [simp]:
  "same_peer x (y\<lparr>Seq := a\<rparr>) = same_peer x y"
  "same_peer x (y\<lparr>Ack := a\<rparr>) = same_peer x y"
  "same_peer x (y\<lparr>Flags := fl\<rparr>) = same_peer x y"
  "same_peer x x"
  by (simp_all add: same_peer_def)

lemma kept_refl: "kept st st"
  by (simp add: kept_def)

lemma kept_trans:
  assumes "kept sta stb" and "kept stb stc"
  shows "kept sta stc"
proof -
  have "rel_option same_peer (peers sta a) (peers stc a)" for a
  proof -
    from assms have ab: "rel_option same_peer (peers sta a) (peers stb a)"
      and bc: "rel_option same_peer (peers stb a) (peers stc a)"
      by (simp_all add: kept_def)
    then show ?thesis
      by (cases "peers sta a"; cases "peers stb a"; cases "peers stc a")
        (auto simp: same_peer_def)
  qed
  with assms show ?thesis
    by (simp add: kept_def)
qed

lemma kept_peer:
  assumes "kept st st'" and "peers st' p = Some y"
  obtains x where "peers st p = Some x" and "same_peer x y"
proof -
  from assms(1) have "rel_option same_peer (peers st p) (peers st' p)"
    by (simp add: kept_def)
  with assms(2) that show ?thesis
    by (cases "peers st p") auto
qed

lemma Send_needs_peers:
  assumes "Send ser p q payload st = Inr st'"
  obtains s r where "peers st p = Some s" and "peers st q = Some r"
proof (cases "peers st p")
  case None
  with assms show ?thesis by (simp add: Send_def)
next
  case (Some s)
  note s = this
  show ?thesis
  proof (cases "peers st q")
    case None
    with s have "p \<noteq> q" by auto
    with assms s None show ?thesis by (simp add: Send_def)
  next
    case (Some r)
    with s that show ?thesis by blast
  qed
qed

lemma Disconnect_needs_peers:
  assumes "Disconnect ser st = Inr st'"
  obtains cl sv where "peers st (Client (conn st)) = Some cl"
    and "peers st (Server (conn st)) = Some sv"
proof (cases "peers st (Client (conn st))")
  case None
  with assms show ?thesis by (simp add: Disconnect_def)
next
  case (Some cl)
  note cl = this
  show ?thesis
  proof (cases "peers st (Server (conn st))")
    case None
    with cl have "Client (conn st) \<noteq> Server (conn st)" by auto
    with assms cl None show ?thesis by (simp add: Disconnect_def)
  next
    case (Some sv)
    with cl that show ?thesis by blast
  qed
qed

text \<open>\<open>Send\<close> and \<open>Disconnect\<close> leave the options of every peer alone, and each of their
  frames carries the options of the peer that sends it.\<close>

lemma Send_frames:
  assumes run: "Send ser p q payload st = Inr st'"
  shows "\<exists>s r f1 f2.
    peers st p = Some s \<and> peers st q = Some r \<and>
    Packets (conn st') = Packets (conn st) @ [f1, f2] \<and>
    sent_with ser s (Options s) f1 \<and> sent_with ser r (Options r) f2 \<and> kept st st'"
proof -
  from run obtain s r where s: "peers st p = Some s" and r: "peers st q = Some r"
    by (rule Send_needs_peers)
  show ?thesis
  proof (cases "p = q")
    case True
    with s r have rs: "r = s" by simp
    from run s show ?thesis
      unfolding True [symmetric] Send_result_same [OF s] rs
      by (auto split: option.splits simp: kept_def dest!: sent_with_serialize)
  next
    case False
    from run s r False show ?thesis
      unfolding Send_result [OF False s r]
      by (auto split: option.splits simp: kept_def dest!: sent_with_serialize)
  qed
qed

lemma Disconnect_frames:
  assumes run: "Disconnect ser st = Inr st'"
  shows "\<exists>cl sv f1 f2 f3.
    peers st (Client (conn st)) = Some cl \<and> peers st (Server (conn st)) = Some sv \<and>
    Packets (conn st') = Packets (conn st) @ [f1, f2, f3] \<and>
    sent_with ser cl (Options cl) f1 \<and> sent_with ser sv (Options sv) f2 \<and>
    sent_with ser cl (Options cl) f3 \<and> kept st st'"
proof -
  from run obtain cl sv where cl: "peers st (Client (conn st)) = Some cl"
    and sv: "peers st (Server (conn st)) = Some sv"
    by (rule Disconnect_needs_peers)
  show ?thesis
  proof (cases "Client (conn st) = Server (conn st)")
    case True
    with cl sv have eq: "sv = cl" by simp
    from run cl show ?thesis
      unfolding Disconnect_result_same [OF True cl] eq True [symmetric]
      by (auto split: option.splits simp: kept_def dest!: sent_with_serialize)
  next
    case False
    from run cl sv False show ?thesis
      unfolding Disconnect_result [OF False cl sv]
      by (auto split: option.splits simp: kept_def dest!: sent_with_serialize)
  qed
qed

lemma sends_own_Some: "peers st p = Some s \<Longrightarrow> sends_own ser st p f = sent_with ser s (Options s) f"
  by (simp add: sends_own_def)

lemma sends_own_kept:
  assumes "kept st st'" and "sends_own ser st' p f"
  shows "sends_own ser st p f"
proof -
  from assms(2) obtain y where y: "peers st' p = Some y" and f: "sent_with ser y (Options y) f"
    by (auto simp: sends_own_def split: option.splits)
  from assms(1) y obtain x where x: "peers st p = Some x" and xy: "same_peer x y"
    by (rule kept_peer)
  from sent_with_same_peer [OF xy f] x show ?thesis
    by (simp add: sends_own_def)
qed

lemma senders_kept: "kept st st' \<Longrightarrow> senders (conn st') x = senders (conn st) x"
  by (cases x) (simp_all add: kept_def)

lemma perform_frames:
  assumes run: "perform ser x st = Inr st'" and x: "x \<noteq> CallConnect"
  shows "\<exists>fs. Packets (conn st') = Packets (conn st) @ fs \<and>
    list_all2 (sends_own ser st) (senders (conn st) x) fs \<and> kept st st'"
proof (cases x)
  case CallConnect
  with x show ?thesis by simp
next
  case (CallSend p q payload)
  with run have "Send ser p q payload st = Inr st'" by simp
  from Send_frames [OF this] obtain s r f1 f2 where
    "peers st p = Some s" "peers st q = Some r"
    "Packets (conn st') = Packets (conn st) @ [f1, f2]"
    "sent_with ser s (Options s) f1" "sent_with ser r (Options r) f2" "kept st st'"
    by blast
  with CallSend show ?thesis
    by (intro exI [of _ "[f1, f2]"]) (simp add: sends_own_def)
next
  case CallDisconnect
  with run have "Disconnect ser st = Inr st'" by simp
  from Disconnect_frames [OF this] obtain cl sv f1 f2 f3 where
    "peers st (Client (conn st)) = Some cl" "peers st (Server (conn st)) = Some sv"
    "Packets (conn st') = Packets (conn st) @ [f1, f2, f3]"
    "sent_with ser cl (Options cl) f1" "sent_with ser sv (Options sv) f2"
    "sent_with ser cl (Options cl) f3" "kept st st'"
    by blast
  with CallDisconnect show ?thesis
    by (intro exI [of _ "[f1, f2, f3]"]) (simp add: sends_own_def)
qed

lemma script_frames:
  "script ser xs st = Inr st' \<Longrightarrow> CallConnect \<notin> set xs \<Longrightarrow>
   \<exists>fs. Packets (conn st') = Packets (conn st) @ fs \<and>
        list_all2 (sends_own ser st) (concat (map (senders (conn st)) xs)) fs \<and> kept st st'"
proof (induction xs arbitrary: st)
  case Nil
  then show ?case by (simp add: kept_refl)
next
  case (Cons x xs)
  from Cons.prems(1) obtain st1
    where first: "perform ser x st = Inr st1" and rest: "script ser xs st1 = Inr st'"
    by (auto simp: bind_eq_Inr)
  from Cons.prems(2) have x: "x \<noteq> CallConnect" and xs: "CallConnect \<notin> set xs"
    by auto
  from perform_frames [OF first x] obtain fs where
    fs: "Packets (conn st1) = Packets (conn st) @ fs"
      "list_all2 (sends_own ser st) (senders (conn st) x) fs"
    and k1: "kept st st1"
    by blast
  from Cons.IH [OF rest xs] obtain gs where
    gs: "Packets (conn st') = Packets (conn st1) @ gs"
      "list_all2 (sends_own ser st1) (concat (map (senders (conn st1)) xs)) gs"
    and k2: "kept st1 st'"
    by blast
  from k1 have "map (senders (conn st1)) xs = map (senders (conn st)) xs"
    by (simp add: senders_kept)
  with gs(2) have "list_all2 (sends_own ser st1) (concat (map (senders (conn st)) xs)) gs"
    by simp
  then have "list_all2 (sends_own ser st) (concat (map (senders (conn st)) xs)) gs"
    by (rule list_all2_mono) (rule sends_own_kept [OF k1])
  with fs(2) have "list_all2 (sends_own ser st) (concat (map (senders (conn st)) (x # xs))) (fs @ gs)"
    by (simp add: list_all2_appendI)
  with fs(1) gs(1) kept_trans [OF k1 k2] show ?case
    by (intro exI [of _ "fs @ gs"]) simp
qed

text \<open>
  C6 (amended). During \<open>Connect\<close> the first frame carries the SYN option list of the
  connection, the second the SYN-ACK list and the third the ACK list. After \<open>Connect\<close>
  has returned, and as long as \<open>Connect\<close> is not called again, every frame stored by
  \<open>Disconnect\<close> or by \<open>Send\<close>, whatever the two peers given to \<open>Send\<close>, is a frame of the
  peer that sends it with the options which that peer holds when \<open>Connect\<close> returns; for
  the client and the server of the connection these are the ACK list.
\<close>

theorem option_scoping:
  assumes "Connect ser st = Inr sta"
  shows "(\<exists>f1 f2 f3.
            Packets (conn sta) = Packets (conn st) @ [f1, f2, f3] \<and>
            carries ser (Options_SYN (conn st)) f1 \<and>
            carries ser (Options_SYNACK (conn st)) f2 \<and>
            carries ser (Options_ACK (conn st)) f3) \<and>
         (CallConnect \<notin> set xs \<and> script ser xs sta = Inr stb \<longrightarrow>
            (\<exists>fs. Packets (conn stb) = Packets (conn sta) @ fs \<and>
                  list_all2
                    (\<lambda>p f. sends_own ser sta p f \<and>
                       (p = Client (conn st) \<or> p = Server (conn st) \<longrightarrow>
                          carries ser (Options_ACK (conn st)) f))
                    (concat (map (senders (conn st)) xs)) fs))"
proof -
  from Connect_options [OF assms] obtain f1 f2 f3 where
    frames: "Packets (conn sta) = Packets (conn st) @ [f1, f2, f3]"
      "carries ser (Options_SYN (conn st)) f1"
      "carries ser (Options_SYNACK (conn st)) f2"
      "carries ser (Options_ACK (conn st)) f3"
    and same: "Client (conn sta) = Client (conn st)" "Server (conn sta) = Server (conn st)"
    and hold: "both_hold sta (Options_ACK (conn st))"
    by blast
  from same have senders: "senders (conn sta) = senders (conn st)"
  proof -
    have "senders (conn sta) x = senders (conn st) x" for x
      using same by (cases x) simp_all
    then show ?thesis by (rule ext)
  qed
  have own: "carries ser (Options_ACK (conn st)) f"
    if "sends_own ser sta p f" and "p = Client (conn st) \<or> p = Server (conn st)" for p f
    using that hold same
    by (auto simp: sends_own_def both_hold_def split: option.splits dest: sent_with_carries)
  have "\<exists>fs. Packets (conn stb) = Packets (conn sta) @ fs \<and>
          list_all2
            (\<lambda>p f. sends_own ser sta p f \<and>
               (p = Client (conn st) \<or> p = Server (conn st) \<longrightarrow>
                  carries ser (Options_ACK (conn st)) f))
            (concat (map (senders (conn st)) xs)) fs"
    if no: "CallConnect \<notin> set xs" and run: "script ser xs sta = Inr stb"
  proof -
    from script_frames [OF run no] obtain fs where
      fs: "Packets (conn stb) = Packets (conn sta) @ fs"
        "list_all2 (sends_own ser sta) (concat (map (senders (conn sta)) xs)) fs"
      by blast
    from fs(2) have "list_all2
            (\<lambda>p f. sends_own ser sta p f \<and>
               (p = Client (conn st) \<or> p = Server (conn st) \<longrightarrow>
                  carries ser (Options_ACK (conn st)) f))
            (concat (map (senders (conn st)) xs)) fs"
      unfolding senders by (rule list_all2_mono) (auto dest: own)
    with fs(1) show ?thesis
      by blast
  qed
  with frames show ?thesis
    by blast
qed

theorem option_scoping_witness:
  "\<exists>sta stb f1 f2 f3 fs.
     Connect demo_serializer demo_state_with_third = Inr sta \<and>
     Packets (conn sta) = [f1, f2, f3] \<and>
     carries demo_serializer demo_options f1 \<and> carries demo_serializer demo_options f2 \<and>
     carries demo_serializer None f3 \<and>
     CallConnect \<notin> set [CallSend 0 1 (Some [97, 98, 99]), CallSend 2 0 (Some [100]),
                        CallSend 1 1 None, CallDisconnect] \<and>
     script demo_serializer
       [CallSend 0 1 (Some [97, 98, 99]), CallSend 2 0 (Some [100]), CallSend 1 1 None,
        CallDisconnect] sta = Inr stb \<and>
     Packets (conn stb) = Packets (conn sta) @ fs \<and> length fs = 9 \<and>
     list_all2
       (\<lambda>p f. sends_own demo_serializer sta p f \<and>
          (p = 0 \<or> p = 1 \<longrightarrow> carries demo_serializer None f))
       [0, 1, 2, 0, 1, 1, 0, 1, 0] fs"
proof -
  let ?xs = "[CallSend 0 1 (Some [97, 98, 99]), CallSend 2 0 (Some [100]), CallSend 1 1 None,
              CallDisconnect]"
  have c: "Options_SYN (conn demo_state_with_third) = demo_options"
    "Options_SYNACK (conn demo_state_with_third) = demo_options"
    "Options_ACK (conn demo_state_with_third) = None"
    "Packets (conn demo_state_with_third) = []"
    "Client (conn demo_state_with_third) = 0" "Server (conn demo_state_with_third) = 1"
    by (simp_all add: demo_state_with_third_def demo_state_with_options_def demo_state_def
        NewConn_def)
  have no: "CallConnect \<notin> set ?xs"
    by simp
  obtain stb where
    "script demo_serializer (CallConnect # ?xs) demo_state_with_third = Inr stb"
    by (simp add: Connect_def Send_def Disconnect_def len_def demo_defs Let_def
        demo_state_with_third_def demo_third_def demo_state_with_options_def demo_options_def)
  then obtain sta where a: "Connect demo_serializer demo_state_with_third = Inr sta"
    and b: "script demo_serializer ?xs sta = Inr stb"
    by (simp only: script.simps(2) perform.simps bind_eq_Inr) blast
  note inst = option_scoping [OF a, where xs = ?xs and stb = stb, unfolded c]
  from inst [THEN conjunct1] obtain f1 f2 f3 where f:
    "Packets (conn sta) = [] @ [f1, f2, f3]"
    "carries demo_serializer demo_options f1" "carries demo_serializer demo_options f2"
    "carries demo_serializer None f3"
    by blast
  from inst [THEN conjunct2] no b obtain fs where fs:
    "Packets (conn stb) = Packets (conn sta) @ fs"
    "list_all2
       (\<lambda>p f. sends_own demo_serializer sta p f \<and>
          (p = 0 \<or> p = 1 \<longrightarrow> carries demo_serializer None f))
       (concat (map (senders (conn demo_state_with_third)) ?xs)) fs"
    by blast
  have snd: "concat (map (senders (conn demo_state_with_third)) ?xs) = [0, 1, 2, 0, 1, 1, 0, 1, 0]"
    by (simp add: c)
  from fs(2) have all: "list_all2
       (\<lambda>p f. sends_own demo_serializer sta p f \<and>
          (p = 0 \<or> p = 1 \<longrightarrow> carries demo_serializer None f))
       [0, 1, 2, 0, 1, 1, 0, 1, 0] fs"
    unfolding snd .
  from list_all2_lengthD [OF all] have len: "length fs = 9"
    by simp
  from f(1) have p: "Packets (conn sta) = [f1, f2, f3]"
    by simp
  show ?thesis
    by (intro exI [of _ sta] exI [of _ stb] exI [of _ f1] exI [of _ f2] exI [of _ f3]
        exI [of _ fs] conjI a p f(2-4) no b fs(1) len all)
qed

text \<open>
  C6 as first worded has every frame of any function after \<open>Connect\<close> carry the ACK
  list. Two runs on a connection whose SYN and SYN-ACK lists hold one option and whose
  ACK list is nil show otherwise. \<open>Connect\<close> called a second time stores as fourth frame
  a frame with the SYN list. \<open>Send\<close> from a third peer, which \<open>Connect\<close> never touches,
  stores as fourth frame a frame with the options of that peer. Neither frame is the
  serialization of a header without options.
\<close>

theorem option_scoping_counterexample:
  "length (packets_of (Connect demo_serializer demo_state_with_options)) = 3 \<and>
   length (packets_of (script demo_serializer [CallConnect, CallConnect]
     demo_state_with_options)) = 6 \<and>
   Options_SYN (conn demo_state_with_options) = Some [2, 4, 5, 180] \<and>
   Options_ACK (conn demo_state_with_options) = None \<and>
   carries demo_serializer (Options_SYN (conn demo_state_with_options))
     (packets_of (script demo_serializer [CallConnect, CallConnect] demo_state_with_options) ! 3) \<and>
   \<not> carries demo_serializer (Options_ACK (conn demo_state_with_options))
     (packets_of (script demo_serializer [CallConnect, CallConnect] demo_state_with_options) ! 3) \<and>
   length (packets_of (Connect demo_serializer demo_state_with_third)) = 3 \<and>
   length (packets_of (script demo_serializer [CallConnect, CallSend 2 0 (Some [97])]
     demo_state_with_third)) = 5 \<and>
   Options_ACK (conn demo_state_with_third) = None \<and>
   carries demo_serializer (Options demo_third)
     (packets_of (script demo_serializer [CallConnect, CallSend 2 0 (Some [97])]
        demo_state_with_third) ! 3) \<and>
   \<not> carries demo_serializer (Options_ACK (conn demo_state_with_third))
     (packets_of (script demo_serializer [CallConnect, CallSend 2 0 (Some [97])]
        demo_state_with_third) ! 3)"
proof -
  let ?f = "[4, 1, 0, 0] @ be32 101 @ be32 0 @ [2, 4, 5, 180] @
            [2, 0, 0, 0, 0, 2, 2, 0, 0, 0, 0, 1, 10, 0, 0, 1, 10, 0, 0, 2] :: byte list"
  let ?g = "[2, 0, 1, 0] @ be32 900 @ be32 101 @ [1, 1] @
            [2, 0, 0, 0, 0, 1, 2, 0, 0, 0, 0, 3, 10, 0, 0, 3, 10, 0, 0, 1, 97] :: byte list"
  note defs = packets_of_def Connect_def Send_def len_def demo_defs Let_def
    demo_state_with_third_def demo_third_def demo_state_with_options_def demo_options_def
  have one: "length (packets_of (Connect demo_serializer demo_state_with_options)) = 3"
    by (simp add: defs)
  have two: "length (packets_of (script demo_serializer [CallConnect, CallConnect]
      demo_state_with_options)) = 6"
    by (simp add: defs)
  have fourth: "packets_of (script demo_serializer [CallConnect, CallConnect]
      demo_state_with_options) ! 3 = ?f"
    by (simp add: defs)
  have c: "Options_SYN (conn demo_state_with_options) = Some [2, 4, 5, 180]"
    "Options_ACK (conn demo_state_with_options) = None"
    "Options_ACK (conn demo_state_with_third) = None"
    "Options demo_third = Some [1, 1]"
    by (simp_all add: demo_state_with_third_def demo_third_def demo_state_with_options_def
        demo_state_def NewConn_def demo_options_def)
  have "serialize demo_serializer
      (demo_client\<lparr>Flags := \<lparr>SYN = True, ACK = False, FIN = False\<rparr>, Seq := 101,
                   Options := Some [2, 4, 5, 180]\<rparr>) demo_server None = Some ?f"
    by (simp add: demo_defs Let_def)
  from carries_serialize [OF this] have yes: "carries demo_serializer (Some [2, 4, 5, 180]) ?f"
    by simp
  have no: "\<not> carries demo_serializer None ?f"
    by (auto simp: carries_def demo_serializer_def demo_tcp_def Let_def
        split: list.splits Layer.splits option.splits)
  have three: "length (packets_of (Connect demo_serializer demo_state_with_third)) = 3"
    by (simp add: defs)
  have five: "length (packets_of (script demo_serializer [CallConnect, CallSend 2 0 (Some [97])]
      demo_state_with_third)) = 5"
    by (simp add: defs)
  have third: "packets_of (script demo_serializer [CallConnect, CallSend 2 0 (Some [97])]
      demo_state_with_third) ! 3 = ?g"
    by (simp add: defs)
  have "serialize demo_serializer
      (demo_third\<lparr>Flags := \<lparr>SYN = False, ACK = True, FIN = False\<rparr>, Ack := 101\<rparr>)
      demo_client (Some [97]) = Some ?g"
    by (simp add: demo_defs demo_third_def Let_def)
  from carries_serialize [OF this] have yes3: "carries demo_serializer (Some [1, 1]) ?g"
    by (simp add: demo_third_def)
  have no3: "\<not> carries demo_serializer None ?g"
    by (auto simp: carries_def demo_serializer_def demo_tcp_def Let_def
        split: list.splits Layer.splits option.splits)
  from one two yes no three five yes3 no3 show ?thesis
    unfolding fourth third c by (intro conjI) simp_all
qed

end
